theory Spec2Isabelle
  imports Main "HOL-Library.AList"
begin

section \<open>Python values and the runtime the handler runs on\<close>

text \<open>
  The program is \<^verbatim>\<open>src/lambda_function.py\<close>: an AWS Lambda handler that reads three
  secrets from S3, asks Gemini to extract an event from a GroupMe message, refreshes a
  Google OAuth token and posts a calendar event.

  Python text is modelled as \<^typ>\<open>string\<close>, a list of 8-bit characters read as the code
  points below 256. Every value the handler touches was decoded from JSON, so one datatype
  covers them: \<open>None\<close>, \<open>bool\<close>, \<open>int\<close>, \<open>float\<close>, \<open>str\<close>, \<open>list\<close> and \<open>dict\<close> (an
  association list in insertion order).
\<close>

datatype pyfloat = Finite int int | NegZero | PosInf | NegInf | NaN

datatype json =
    JNull
  | JBool bool
  | JInt int
  | JFloat pyfloat
  | JStr string
  | JArr "json list"
  | JObj "(string \<times> json) list"

text \<open>The operations of the interpreter that fail on a value of the wrong type.\<close>

datatype pyop = Subscript | Loads | GetAttr | Slice | SetItem | Contains

text \<open>
  Exceptions, by the classes the \<^verbatim>\<open>except\<close> clauses of the source tell apart.
  \<open>Fault\<close> is a \<^verbatim>\<open>TypeError\<close> or \<^verbatim>\<open>AttributeError\<close> raised by the interpreter for an
  operation on an operand. \<open>Timeout\<close>, \<open>RequestException\<close> and \<open>RequestsJSONDecodeError\<close>
  are classes of \<^verbatim>\<open>requests.exceptions\<close>; the last one is what \<^verbatim>\<open>response.json()\<close> raises
  when \<^verbatim>\<open>requests\<close> runs on the standard \<^verbatim>\<open>json\<close> module, a subclass of both
  \<^verbatim>\<open>RequestException\<close> and \<^verbatim>\<open>json.JSONDecodeError\<close>. \<open>OtherError\<close> is any other
  subclass of \<^verbatim>\<open>Exception\<close>. The string is the text of \<^verbatim>\<open>str(e)\<close>, except for
  \<open>KeyError\<close> (the missing key) and \<open>UnboundLocalError\<close> (the variable).
\<close>

datatype exn =
    KeyError string
  | Fault pyop json
  | UnboundLocalError string
  | JSONDecodeError string
  | Timeout string
  | RequestException string
  | RequestsJSONDecodeError string
  | OtherError string

fun is_request_exception :: "exn \<Rightarrow> bool" where
  "is_request_exception (Timeout _) = True"
| "is_request_exception (RequestException _) = True"
| "is_request_exception (RequestsJSONDecodeError _) = True"
| "is_request_exception _ = False"

fun is_json_decode_error :: "exn \<Rightarrow> bool" where
  "is_json_decode_error (JSONDecodeError _) = True"
| "is_json_decode_error (RequestsJSONDecodeError _) = True"
| "is_json_decode_error _ = False"

fun is_timeout :: "exn \<Rightarrow> bool" where
  "is_timeout (Timeout _) = True"
| "is_timeout _ = False"

text \<open>
  The library functions the source calls and does not define: \<^verbatim>\<open>json.loads\<close> (\<open>Inl\<close> is
  the message of the \<^verbatim>\<open>JSONDecodeError\<close>), \<^verbatim>\<open>json.dumps\<close>, \<^verbatim>\<open>str()\<close> of a value that
  is not a \<^verbatim>\<open>str\<close>, and the message the interpreter gives its own errors.
\<close>

record runtime =
  loads :: "string \<Rightarrow> string + json"
  dumps :: "json \<Rightarrow> string"
  repr :: "json \<Rightarrow> string"
  describe :: "exn \<Rightarrow> string"

fun str_exn :: "runtime \<Rightarrow> exn \<Rightarrow> string" where
  "str_exn rt (KeyError k) = [CHR 0x27] @ k @ [CHR 0x27]"
| "str_exn rt (Fault op v) = describe rt (Fault op v)"
| "str_exn rt (UnboundLocalError x) = describe rt (UnboundLocalError x)"
| "str_exn rt (JSONDecodeError m) = m"
| "str_exn rt (Timeout m) = m"
| "str_exn rt (RequestException m) = m"
| "str_exn rt (RequestsJSONDecodeError m) = m"
| "str_exn rt (OtherError m) = m"

text \<open>An f-string field \<^verbatim>\<open>{v}\<close>: a \<^verbatim>\<open>str\<close> is inserted as it is.\<close>

fun fmt :: "runtime \<Rightarrow> json \<Rightarrow> string" where
  "fmt rt (JStr s) = s"
| "fmt rt v = repr rt v"

fun float_nonzero :: "pyfloat \<Rightarrow> bool" where
  "float_nonzero (Finite m e) = (m \<noteq> 0)"
| "float_nonzero NegZero = False"
| "float_nonzero _ = True"

text \<open>Truth value of a Python object, as \<^verbatim>\<open>if\<close>, \<^verbatim>\<open>not\<close> and \<^verbatim>\<open>all\<close> test it.\<close>

fun truthy :: "json \<Rightarrow> bool" where
  "truthy JNull = False"
| "truthy (JBool b) = b"
| "truthy (JInt i) = (i \<noteq> 0)"
| "truthy (JFloat f) = float_nonzero f"
| "truthy (JStr s) = (s \<noteq> [])"
| "truthy (JArr xs) = (xs \<noteq> [])"
| "truthy (JObj kv) = (kv \<noteq> [])"

text \<open>\<^verbatim>\<open>d.get(k)\<close> and \<^verbatim>\<open>d.get(k, default)\<close>; only a \<^verbatim>\<open>dict\<close> has the method.\<close>

fun dict_get :: "json \<Rightarrow> string \<Rightarrow> json \<Rightarrow> exn + json" where
  "dict_get (JObj kv) k dflt = Inr (case map_of kv k of None \<Rightarrow> dflt | Some v \<Rightarrow> v)"
| "dict_get v k dflt = Inl (Fault GetAttr v)"

text \<open>\<^verbatim>\<open>d[k]\<close> with a string key.\<close>

fun subscript :: "json \<Rightarrow> string \<Rightarrow> exn + json" where
  "subscript (JObj kv) k = (case map_of kv k of None \<Rightarrow> Inl (KeyError k) | Some v \<Rightarrow> Inr v)"
| "subscript v k = Inl (Fault Subscript v)"

text \<open>
  \<^verbatim>\<open>x[0]\<close>: the first element of a list, the first character of a string; every other
  case raises (\<^verbatim>\<open>IndexError\<close>, \<^verbatim>\<open>KeyError\<close> or \<^verbatim>\<open>TypeError\<close>), which the one caller
  catches without looking at the class.
\<close>

fun subscript0 :: "json \<Rightarrow> json option" where
  "subscript0 (JArr (x # xs)) = Some x"
| "subscript0 (JStr (c # cs)) = Some (JStr [c])"
| "subscript0 _ = None"

text \<open>\<^verbatim>\<open>d[k] = v\<close>: an existing key keeps its place, a new key goes last.\<close>

fun set_item :: "json \<Rightarrow> string \<Rightarrow> json \<Rightarrow> exn + json" where
  "set_item (JObj kv) k v = Inr (JObj (AList.update k v kv))"
| "set_item d k v = Inl (Fault SetItem d)"

text \<open>\<^verbatim>\<open>x[:100]\<close> is evaluated for a log line; its value is not used.\<close>

fun sliceable :: "json \<Rightarrow> bool" where
  "sliceable (JStr s) = True"
| "sliceable (JArr xs) = True"
| "sliceable _ = False"

subsection \<open>String methods\<close>

definition py_isspace :: "char \<Rightarrow> bool" where
  "py_isspace c = ((of_char c :: nat) \<in> {9, 10, 11, 12, 13, 28, 29, 30, 31, 32, 133, 160})"

definition lstrip_chars :: "(char \<Rightarrow> bool) \<Rightarrow> string \<Rightarrow> string" where
  "lstrip_chars p s = dropWhile p s"

definition rstrip_chars :: "(char \<Rightarrow> bool) \<Rightarrow> string \<Rightarrow> string" where
  "rstrip_chars p s = rev (dropWhile p (rev s))"

definition strip :: "string \<Rightarrow> string" where
  "strip s = rstrip_chars py_isspace (lstrip_chars py_isspace s)"

text \<open>
  \<^verbatim>\<open>json_text_raw.strip().lstrip("```json").rstrip("```")\<close>: \<^verbatim>\<open>lstrip\<close> and \<^verbatim>\<open>rstrip\<close>
  take a set of characters, not a prefix or a suffix.
\<close>

definition strip_fences :: "string \<Rightarrow> string" where
  "strip_fences s =
     rstrip_chars (\<lambda>c. c \<in> set ''```'')
       (lstrip_chars (\<lambda>c. c \<in> set ''```json'') (strip s))"

text \<open>\<^verbatim>\<open>needle in haystack\<close> on strings.\<close>

fun is_prefix :: "string \<Rightarrow> string \<Rightarrow> bool" where
  "is_prefix [] ys = True"
| "is_prefix (x # xs) [] = False"
| "is_prefix (x # xs) (y # ys) = (x = y \<and> is_prefix xs ys)"

fun str_contains :: "string \<Rightarrow> string \<Rightarrow> bool" where
  "str_contains needle [] = (needle = [])"
| "str_contains needle (c # cs) = (is_prefix needle (c # cs) \<or> str_contains needle cs)"

text \<open>
  What the specification says that line does, for comparison with \<open>strip_fences\<close>: the
  text is trimmed, a leading code-fence marker (\<^verbatim>\<open>```json\<close>, or \<^verbatim>\<open>```\<close> alone) is taken
  off as a prefix and a trailing \<^verbatim>\<open>```\<close> as a suffix.
\<close>

definition remove_prefix :: "string \<Rightarrow> string \<Rightarrow> string" where
  "remove_prefix p s = (if is_prefix p s then drop (length p) s else s)"

definition remove_suffix :: "string \<Rightarrow> string \<Rightarrow> string" where
  "remove_suffix p s = rev (remove_prefix (rev p) (rev s))"

definition unfenced_by_spec :: "string \<Rightarrow> string" where
  "unfenced_by_spec s =
     remove_suffix ''```''
       (if is_prefix ''```json'' (strip s) then remove_prefix ''```json'' (strip s)
        else remove_prefix ''```'' (strip s))"

section \<open>Dates and times\<close>

text \<open>
  \<^verbatim>\<open>datetime.strptime(s, '%Y-%m-%dT%H:%M:%S')\<close>, \<^verbatim>\<open>dt + timedelta(hours=1)\<close> and
  \<^verbatim>\<open>dt.isoformat()\<close> are library calls. \<open>strptime\<close> below follows the regular
  expression CPython builds for this format: one group per directive, the alternatives of
  a group tried in order with backtracking, and a match that leaves text unread rejected.
\<close>

record datetime =
  year :: nat
  month :: nat
  day :: nat
  hour :: nat
  minute :: nat
  second :: nat

definition in_range :: "char \<Rightarrow> char \<Rightarrow> char \<Rightarrow> bool" where
  "in_range lo hi c = ((of_char lo :: nat) \<le> of_char c \<and> (of_char c :: nat) \<le> of_char hi)"

definition is_digit :: "char \<Rightarrow> bool" where
  "is_digit c = in_range CHR ''0'' CHR ''9'' c"

definition digit_val :: "char \<Rightarrow> nat" where
  "digit_val c = of_char c - 48"

text \<open>One alternative of a group: two characters, or one.\<close>

fun alt2 :: "(char \<Rightarrow> bool) \<Rightarrow> (char \<Rightarrow> bool) \<Rightarrow> string \<Rightarrow> (nat \<times> string) list" where
  "alt2 p q (a # b # r) = (if p a \<and> q b then [(10 * digit_val a + digit_val b, r)] else [])"
| "alt2 p q s = []"

fun alt1 :: "(char \<Rightarrow> bool) \<Rightarrow> string \<Rightarrow> (nat \<times> string) list" where
  "alt1 p (a # r) = (if p a then [(digit_val a, r)] else [])"
| "alt1 p s = []"

fun literal :: "(char \<Rightarrow> bool) \<Rightarrow> string \<Rightarrow> string list" where
  "literal p (a # r) = (if p a then [r] else [])"
| "literal p [] = []"

text \<open>\<^verbatim>\<open>%Y\<close> is \<^verbatim>\<open>\d\d\d\d\<close>.\<close>

fun dir_Y :: "string \<Rightarrow> (nat \<times> string) list" where
  "dir_Y (a # b # c # d # r) =
     (if is_digit a \<and> is_digit b \<and> is_digit c \<and> is_digit d
      then [(1000 * digit_val a + 100 * digit_val b + 10 * digit_val c + digit_val d, r)]
      else [])"
| "dir_Y s = []"

text \<open>\<^verbatim>\<open>%m\<close> is \<^verbatim>\<open>1[0-2]|0[1-9]|[1-9]\<close>.\<close>

definition dir_m :: "string \<Rightarrow> (nat \<times> string) list" where
  "dir_m s =
     alt2 (\<lambda>c. c = CHR ''1'') (in_range CHR ''0'' CHR ''2'') s
     @ alt2 (\<lambda>c. c = CHR ''0'') (in_range CHR ''1'' CHR ''9'') s
     @ alt1 (in_range CHR ''1'' CHR ''9'') s"

text \<open>\<^verbatim>\<open>%d\<close> is \<^verbatim>\<open>3[0-1]|[1-2]\d|0[1-9]|[1-9]| [1-9]\<close>.\<close>

definition dir_d :: "string \<Rightarrow> (nat \<times> string) list" where
  "dir_d s =
     alt2 (\<lambda>c. c = CHR ''3'') (in_range CHR ''0'' CHR ''1'') s
     @ alt2 (in_range CHR ''1'' CHR ''2'') is_digit s
     @ alt2 (\<lambda>c. c = CHR ''0'') (in_range CHR ''1'' CHR ''9'') s
     @ alt1 (in_range CHR ''1'' CHR ''9'') s
     @ (case s of a # b # r \<Rightarrow>
          if a = CHR '' '' \<and> in_range CHR ''1'' CHR ''9'' b then [(digit_val b, r)] else []
        | _ \<Rightarrow> [])"

text \<open>\<^verbatim>\<open>%H\<close> is \<^verbatim>\<open>2[0-3]|[0-1]\d|\d\<close>.\<close>

definition dir_H :: "string \<Rightarrow> (nat \<times> string) list" where
  "dir_H s =
     alt2 (\<lambda>c. c = CHR ''2'') (in_range CHR ''0'' CHR ''3'') s
     @ alt2 (in_range CHR ''0'' CHR ''1'') is_digit s
     @ alt1 is_digit s"

text \<open>\<^verbatim>\<open>%M\<close> is \<^verbatim>\<open>[0-5]\d|\d\<close>.\<close>

definition dir_M :: "string \<Rightarrow> (nat \<times> string) list" where
  "dir_M s = alt2 (in_range CHR ''0'' CHR ''5'') is_digit s @ alt1 is_digit s"

text \<open>\<^verbatim>\<open>%S\<close> is \<^verbatim>\<open>6[0-1]|[0-5]\d|\d\<close>.\<close>

definition dir_S :: "string \<Rightarrow> (nat \<times> string) list" where
  "dir_S s =
     alt2 (\<lambda>c. c = CHR ''6'') (in_range CHR ''0'' CHR ''1'') s
     @ alt2 (in_range CHR ''0'' CHR ''5'') is_digit s
     @ alt1 is_digit s"

text \<open>
  All ways the expression matches a prefix of the text, best first. The expression is
  compiled case-insensitively, so the literal \<^verbatim>\<open>T\<close> also matches \<^verbatim>\<open>t\<close>.
\<close>

definition strptime_matches :: "string \<Rightarrow> (datetime \<times> string) list" where
  "strptime_matches s =
     [(\<lparr>year = Y, month = m, day = d, hour = H, minute = M, second = S\<rparr>, s11).
        (Y, s1) \<leftarrow> dir_Y s,
        s2 \<leftarrow> literal (\<lambda>c. c = CHR ''-'') s1,
        (m, s3) \<leftarrow> dir_m s2,
        s4 \<leftarrow> literal (\<lambda>c. c = CHR ''-'') s3,
        (d, s5) \<leftarrow> dir_d s4,
        s6 \<leftarrow> literal (\<lambda>c. c = CHR ''T'' \<or> c = CHR ''t'') s5,
        (H, s7) \<leftarrow> dir_H s6,
        s8 \<leftarrow> literal (\<lambda>c. c = CHR '':'') s7,
        (M, s9) \<leftarrow> dir_M s8,
        s10 \<leftarrow> literal (\<lambda>c. c = CHR '':'') s9,
        (S, s11) \<leftarrow> dir_S s10]"

definition is_leap :: "nat \<Rightarrow> bool" where
  "is_leap y = (y mod 4 = 0 \<and> (y mod 100 \<noteq> 0 \<or> y mod 400 = 0))"

definition days_in_month :: "nat \<Rightarrow> nat \<Rightarrow> nat" where
  "days_in_month y m =
     (if m = 2 then (if is_leap y then 29 else 28)
      else if m = 4 \<or> m = 6 \<or> m = 9 \<or> m = 11 then 30 else 31)"

text \<open>What the \<^verbatim>\<open>datetime\<close> constructor accepts (\<^verbatim>\<open>MINYEAR = 1\<close>, \<^verbatim>\<open>MAXYEAR = 9999\<close>).\<close>

definition valid_datetime :: "datetime \<Rightarrow> bool" where
  "valid_datetime dt =
     (1 \<le> year dt \<and> year dt \<le> 9999 \<and> 1 \<le> month dt \<and> month dt \<le> 12
      \<and> 1 \<le> day dt \<and> day dt \<le> days_in_month (year dt) (month dt)
      \<and> hour dt \<le> 23 \<and> minute dt \<le> 59 \<and> second dt \<le> 59)"

text \<open>\<open>None\<close> is the \<^verbatim>\<open>ValueError\<close>.\<close>

definition strptime :: "string \<Rightarrow> datetime option" where
  "strptime s =
     (case strptime_matches s of
        [] \<Rightarrow> None
      | (dt, rest) # _ \<Rightarrow> if rest = [] \<and> valid_datetime dt then Some dt else None)"

text \<open>
  \<^verbatim>\<open>dt + timedelta(hours=1)\<close>; \<open>None\<close> is the \<^verbatim>\<open>OverflowError\<close> past year 9999.
\<close>

definition plus_one_hour :: "datetime \<Rightarrow> datetime option" where
  "plus_one_hour dt =
     (if hour dt < 23 then Some (dt\<lparr>hour := hour dt + 1\<rparr>)
      else if day dt < days_in_month (year dt) (month dt)
        then Some (dt\<lparr>day := day dt + 1, hour := 0\<rparr>)
      else if month dt < 12 then Some (dt\<lparr>month := month dt + 1, day := 1, hour := 0\<rparr>)
      else if year dt < 9999
        then Some (dt\<lparr>year := year dt + 1, month := 1, day := 1, hour := 0\<rparr>)
      else None)"

definition dig :: "nat \<Rightarrow> char" where
  "dig n = ''0123456789'' ! (n mod 10)"

definition pad2 :: "nat \<Rightarrow> string" where
  "pad2 n = [dig (n div 10), dig n]"

definition pad4 :: "nat \<Rightarrow> string" where
  "pad4 n = [dig (n div 1000), dig (n div 100), dig (n div 10), dig n]"

definition isoformat :: "datetime \<Rightarrow> string" where
  "isoformat dt =
     pad4 (year dt) @ ''-'' @ pad2 (month dt) @ ''-'' @ pad2 (day dt) @ ''T''
     @ pad2 (hour dt) @ '':'' @ pad2 (minute dt) @ '':'' @ pad2 (second dt)"

text \<open>
  The time line \<^verbatim>\<open>datetime\<close> arithmetic is defined on: the proleptic Gregorian ordinal
  of the day (\<^verbatim>\<open>date.toordinal\<close>, day 1 is 0001-01-01) and the seconds since day 0.
\<close>

definition days_before_year :: "nat \<Rightarrow> nat" where
  "days_before_year y = (y - 1) * 365 + (y - 1) div 4 - (y - 1) div 100 + (y - 1) div 400"

fun days_before_month :: "nat \<Rightarrow> nat \<Rightarrow> nat" where
  "days_before_month y 0 = 0"
| "days_before_month y (Suc m) = (if m = 0 then 0 else days_before_month y m + days_in_month y m)"

definition toordinal :: "datetime \<Rightarrow> nat" where
  "toordinal dt = days_before_year (year dt) + days_before_month (year dt) (month dt) + day dt"

definition total_seconds :: "datetime \<Rightarrow> nat" where
  "total_seconds dt = ((toordinal dt * 24 + hour dt) * 60 + minute dt) * 60 + second dt"


section \<open>The outside world\<close>

text \<open>
  What \<^verbatim>\<open>requests.post\<close> gives back: it raises, or it returns a response whose
  \<^verbatim>\<open>raise_for_status()\<close> raises or passes and whose \<^verbatim>\<open>json()\<close> raises or returns the
  decoded body.
\<close>

record response =
  raise_for_status :: "exn option"
  body_json :: "exn + json"

record gemini_request =
  api_key :: string
  prompt :: string

record token_request =
  client_id :: json
  client_secret :: json
  refresh_token :: json
  grant_type :: string

record calendar_request =
  authorization :: string
  url :: string
  event_body :: json

text \<open>
  The services answer the request they are sent. \<open>s3_get_object\<close> takes the bucket and the
  key and gives the decoded text of the object, or the exception of \<^verbatim>\<open>get_object\<close>,
  \<^verbatim>\<open>read\<close> or \<^verbatim>\<open>decode\<close>. \<open>today\<close> is \<^verbatim>\<open>datetime.now().strftime('%Y-%m-%d')\<close>.
\<close>

record world =
  s3_get_object :: "string \<Rightarrow> string \<Rightarrow> exn + string"
  gemini_post :: "gemini_request \<Rightarrow> exn + response"
  token_post :: "token_request \<Rightarrow> exn + response"
  calendar_post :: "calendar_request \<Rightarrow> exn + response"
  today :: string

text \<open>One external call: the request sent and the answer received.\<close>

datatype call =
    S3Get string "exn + string"
  | GeminiPost gemini_request "exn + response"
  | TokenPost token_request "exn + response"
  | CalendarPost calendar_request "exn + response"

fun is_token_post :: "call \<Rightarrow> bool" where
  "is_token_post (TokenPost q r) = True"
| "is_token_post c = False"

fun is_calendar_post :: "call \<Rightarrow> bool" where
  "is_calendar_post (CalendarPost q r) = True"
| "is_calendar_post c = False"

text \<open>The answer alone, whatever the service.\<close>

datatype reply = TextReply "exn + string" | HttpReply "exn + response"

fun reply_of :: "call \<Rightarrow> reply" where
  "reply_of (S3Get k r) = TextReply r"
| "reply_of (GeminiPost q r) = HttpReply r"
| "reply_of (TokenPost q r) = HttpReply r"
| "reply_of (CalendarPost q r) = HttpReply r"

section \<open>The program\<close>

definition S3_BUCKET_NAME :: string where "S3_BUCKET_NAME = ''groupme-bucket''"
definition S3_GEMINI_KEY_FILE :: string where "S3_GEMINI_KEY_FILE = ''gemini_api_key.txt''"
definition S3_GOOGLE_CREDS_FILE :: string where "S3_GOOGLE_CREDS_FILE = ''google_creds.json''"
definition S3_CALENDAR_ID_FILE :: string where "S3_CALENDAR_ID_FILE = ''calendar_id.txt''"
definition TIMEZONE :: string where "TIMEZONE = ''America/New_York''"

subsection \<open>\<^verbatim>\<open>get_secret\<close>\<close>

text \<open>\<open>None\<close> is the \<^verbatim>\<open>None\<close> the function returns after logging the error.\<close>

definition get_secret :: "world \<Rightarrow> string \<Rightarrow> string option \<times> call list" where
  "get_secret w file_key =
     (let r = s3_get_object w S3_BUCKET_NAME file_key in
      (case r of
         Inl e \<Rightarrow> None
       | Inr content \<Rightarrow> (let secret = strip content in if secret = [] then None else Some secret),
       [S3Get file_key r]))"

subsection \<open>\<^verbatim>\<open>extract_event_data\<close>\<close>

definition nl :: string where "nl = [CHR 0x0A]"

definition build_prompt :: "runtime \<Rightarrow> string \<Rightarrow> json \<Rightarrow> string" where
  \<open>build_prompt rt date raw_text =
     nl
     @ ''    You are an expert event extraction assistant. Analyze the following GroupMe message. '' @ nl
     @ ''    Respond ONLY with a JSON object (no commentary or markdown).'' @ nl
     @ nl
     @ ''    If a clear event is found, set "event_found" to true.'' @ nl
     @ ''    If the time is missing, assume 18:00.'' @ nl
     @ ''    If the date is relative (e.g., '' @ [CHR 0x27] @ ''next Friday'' @ [CHR 0x27]
     @ ''), resolve it using current date: '' @ date @ ''.'' @ nl
     @ ''    Otherwise, set "event_found" to false.'' @ nl
     @ nl
     @ ''    Message: "'' @ fmt rt raw_text @ ''"'' @ nl
     @ ''    JSON Schema:'' @ nl
     @ ''    {'' @ nl
     @ ''        "event_found": boolean,'' @ nl
     @ ''        "title": string,'' @ nl
     @ ''        "date": "YYYY-MM-DD" or null,'' @ nl
     @ ''        "time": "HH:MM" or null,'' @ nl
     @ ''        "location": string,'' @ nl
     @ ''        "description": string'' @ nl
     @ ''    }'' @ nl
     @ ''    ''\<close>

definition event_not_found :: json where
  "event_not_found = JObj [(''event_found'', JBool False)]"

definition ok :: "exn + 'a \<Rightarrow> 'a option" where
  "ok r = (case r of Inl e \<Rightarrow> None | Inr v \<Rightarrow> Some v)"

text \<open>\<^verbatim>\<open>gemini_output["candidates"][0]["content"]["parts"][0]["text"]\<close>\<close>

definition gemini_text :: "json \<Rightarrow> json option" where
  "gemini_text out =
     Option.bind (ok (subscript out ''candidates'')) (\<lambda>cands.
     Option.bind (subscript0 cands) (\<lambda>cand.
     Option.bind (ok (subscript cand ''content'')) (\<lambda>content.
     Option.bind (ok (subscript content ''parts'')) (\<lambda>parts.
     Option.bind (subscript0 parts) (\<lambda>part.
     ok (subscript part ''text''))))))"

text \<open>
  The second \<^verbatim>\<open>try\<close> block. When \<^verbatim>\<open>response.json()\<close> raises a
  \<^verbatim>\<open>json.JSONDecodeError\<close>, the first \<^verbatim>\<open>except\<close> clause logs \<^verbatim>\<open>json_text_raw\<close>, which has
  no value yet: the \<^verbatim>\<open>UnboundLocalError\<close> leaves the function. Every other exception of
  the block is caught, and so is the \<^verbatim>\<open>JSONDecodeError\<close> of \<^verbatim>\<open>json.loads\<close>.
\<close>

definition parse_gemini_response :: "runtime \<Rightarrow> response \<Rightarrow> exn + json" where
  "parse_gemini_response rt resp =
     (case body_json resp of
        Inl e \<Rightarrow>
          if is_json_decode_error e then Inl (UnboundLocalError ''json_text_raw'')
          else Inr event_not_found
      | Inr gemini_output \<Rightarrow>
          (case gemini_text gemini_output of
             Some (JStr json_text_raw) \<Rightarrow>
               (case loads rt (strip_fences json_text_raw) of
                  Inl msg \<Rightarrow> Inr event_not_found
                | Inr event_data \<Rightarrow> Inr event_data)
           | _ \<Rightarrow> Inr event_not_found))"

definition extract_event_data ::
  "runtime \<Rightarrow> world \<Rightarrow> string \<Rightarrow> json \<Rightarrow> (exn + json) \<times> call list" where
  "extract_event_data rt w key raw_text =
     (if key = [] then (Inr event_not_found, [])
      else
        let req = \<lparr>api_key = key, prompt = build_prompt rt (today w) raw_text\<rparr>;
            r = gemini_post w req
        in (case r of
              Inl e \<Rightarrow> if is_timeout e then Inr event_not_found else Inr event_not_found
            | Inr resp \<Rightarrow>
                (case raise_for_status resp of
                   Some e \<Rightarrow> Inr event_not_found
                 | None \<Rightarrow> parse_gemini_response rt resp),
            [GeminiPost req r]))"

subsection \<open>\<^verbatim>\<open>refresh_access_token\<close>\<close>

text \<open>\<^verbatim>\<open>k in v\<close>: a key of a dict, an element of a list, a substring of a string.\<close>

fun contains :: "json \<Rightarrow> string \<Rightarrow> exn + bool" where
  "contains (JObj kv) k = Inr (map_of kv k \<noteq> None)"
| "contains (JArr xs) k = Inr (JStr k \<in> set xs)"
| "contains (JStr s) k = Inr (str_contains k s)"
| "contains v k = Inl (Fault Contains v)"

definition unwrap_creds :: "json \<Rightarrow> exn + json" where
  "unwrap_creds creds =
     (case contains creds ''installed'' of
        Inl e \<Rightarrow> Inl e
      | Inr True \<Rightarrow> subscript creds ''installed''
      | Inr False \<Rightarrow>
          (case contains creds ''web'' of
             Inl e \<Rightarrow> Inl e
           | Inr True \<Rightarrow> subscript creds ''web''
           | Inr False \<Rightarrow> Inr creds))"

text \<open>The function from \<^verbatim>\<open>token_data\<close> on, the credentials unwrapped.\<close>

definition request_token ::
  "world \<Rightarrow> json \<Rightarrow> (exn + json) \<times> call list" where
  "request_token w creds =
     (case dict_get creds ''client_id'' JNull of Inl e \<Rightarrow> (Inl e, []) | Inr cid \<Rightarrow>
     (case dict_get creds ''client_secret'' JNull of Inl e \<Rightarrow> (Inl e, []) | Inr csecret \<Rightarrow>
     (case dict_get creds ''refresh_token'' JNull of Inl e \<Rightarrow> (Inl e, []) | Inr rtoken \<Rightarrow>
        if \<not> (truthy cid \<and> truthy csecret \<and> truthy rtoken) then (Inr JNull, [])
        else
          let token_data = \<lparr>client_id = cid, client_secret = csecret, refresh_token = rtoken,
                             grant_type = ''refresh_token''\<rparr>;
              r = token_post w token_data
          in (case r of
                Inl e \<Rightarrow> Inl e
              | Inr resp \<Rightarrow>
                  (case raise_for_status resp of
                     Some e \<Rightarrow> Inl e
                   | None \<Rightarrow>
                       (case body_json resp of
                          Inl e \<Rightarrow> Inl e
                        | Inr token_response \<Rightarrow>
                            (case dict_get token_response ''expires_in'' JNull of
                               Inl e \<Rightarrow> Inl e
                             | Inr expires \<Rightarrow> subscript token_response ''access_token''))),
              [TokenPost token_data r]))))"

definition refresh_access_token ::
  "world \<Rightarrow> json \<Rightarrow> (exn + json) \<times> call list" where
  "refresh_access_token w creds =
     (case unwrap_creds creds of
        Inl e \<Rightarrow> (Inl e, [])
      | Inr creds' \<Rightarrow> request_token w creds')"

subsection \<open>\<^verbatim>\<open>create_google_event\<close>\<close>

text \<open>The \<^verbatim>\<open>try\<close> block: \<open>None\<close> when anything in it raises.\<close>

definition event_times :: "runtime \<Rightarrow> json \<Rightarrow> (datetime \<times> datetime) option" where
  "event_times rt event_data =
     Option.bind (ok (subscript event_data ''date'')) (\<lambda>d.
     Option.bind (ok (subscript event_data ''time'')) (\<lambda>t.
     Option.bind (strptime (fmt rt d @ ''T'' @ fmt rt t @ '':00'')) (\<lambda>start_dt.
     Option.bind (plus_one_hour start_dt) (\<lambda>end_dt.
     Some (start_dt, end_dt)))))"

definition invalid_date_time :: json where
  "invalid_date_time = JObj [(''status'', JStr ''error''), (''message'', JStr ''Invalid date/time'')]"

definition create_google_event ::
  "runtime \<Rightarrow> world \<Rightarrow> json \<Rightarrow> string \<Rightarrow> json \<Rightarrow> (exn + json) \<times> call list" where
  "create_google_event rt w access_token calendar_id event_data =
     (case event_times rt event_data of
        None \<Rightarrow> (Inr invalid_date_time, [])
      | Some (start_dt, end_dt) \<Rightarrow>
     (case subscript event_data ''title'' of Inl e \<Rightarrow> (Inl e, []) | Inr title \<Rightarrow>
     (case subscript event_data ''location'' of Inl e \<Rightarrow> (Inl e, []) | Inr location \<Rightarrow>
     (case subscript event_data ''group_context'' of Inl e \<Rightarrow> (Inl e, []) | Inr grp \<Rightarrow>
     (case subscript event_data ''description'' of Inl e \<Rightarrow> (Inl e, []) | Inr descr \<Rightarrow>
       let body = JObj
             [(''summary'', title),
              (''location'', location),
              (''description'', JStr (''Group: '' @ fmt rt grp @ nl @ ''Details: '' @ fmt rt descr)),
              (''start'', JObj [(''dateTime'', JStr (isoformat start_dt)), (''timeZone'', JStr TIMEZONE)]),
              (''end'', JObj [(''dateTime'', JStr (isoformat end_dt)), (''timeZone'', JStr TIMEZONE)])];
           req = \<lparr>authorization = ''Bearer '' @ fmt rt access_token,
                  url = ''https://www.googleapis.com/calendar/v3/calendars/'' @ calendar_id @ ''/events'',
                  event_body = body\<rparr>;
           r = calendar_post w req
       in (case r of
             Inl e \<Rightarrow> Inl e
           | Inr resp \<Rightarrow>
               (case raise_for_status resp of
                  Some e \<Rightarrow> Inl e
                | None \<Rightarrow> body_json resp),
           [CalendarPost req r]))))))"

subsection \<open>\<^verbatim>\<open>lambda_handler\<close>\<close>

record result =
  statusCode :: nat
  body :: string

text \<open>\<^verbatim>\<open>json.loads(x)\<close> on a value that need not be a string.\<close>

fun json_loads :: "runtime \<Rightarrow> json \<Rightarrow> exn + json" where
  "json_loads rt (JStr s) = (case loads rt s of Inl msg \<Rightarrow> Inl (JSONDecodeError msg) | Inr v \<Rightarrow> Inr v)"
| "json_loads rt v = Inl (Fault Loads v)"

text \<open>From the event found to the response (lines 187 to 198).\<close>

definition add_to_calendar ::
  "runtime \<Rightarrow> world \<Rightarrow> json \<Rightarrow> string \<Rightarrow> json \<Rightarrow> (exn + result) \<times> call list" where
  "add_to_calendar rt w google_creds calendar_id event_data =
     (case refresh_access_token w google_creds of
        (Inl e, t1) \<Rightarrow> (Inl e, t1)
      | (Inr access_token, t1) \<Rightarrow>
          if \<not> truthy access_token
          then (Inr \<lparr>statusCode = 500,
                     body = dumps rt (JStr ''Failed to refresh Google access token.'')\<rparr>, t1)
          else
            (case create_google_event rt w access_token calendar_id event_data of
               (Inl e, t2) \<Rightarrow> (Inl e, t1 @ t2)
             | (Inr calendar_response, t2) \<Rightarrow>
                 (case dict_get calendar_response ''htmlLink'' JNull of
                    Inl e \<Rightarrow> (Inl e, t1 @ t2)
                  | Inr link \<Rightarrow>
                      (Inr \<lparr>statusCode = 200,
                            body = dumps rt (JObj [(''status'', JStr ''Event created.''),
                                                   (''link'', link)])\<rparr>, t1 @ t2))))"

text \<open>From the extracted record to the response (lines 183 to 201).\<close>

definition after_extraction ::
  "runtime \<Rightarrow> world \<Rightarrow> json \<Rightarrow> string \<Rightarrow> json \<Rightarrow> json \<Rightarrow> (exn + result) \<times> call list" where
  "after_extraction rt w google_creds calendar_id group_name extracted =
     (case set_item extracted ''group_context'' group_name of Inl e \<Rightarrow> (Inl e, []) | Inr event_data \<Rightarrow>
     (case dict_get event_data ''title'' JNull of Inl e \<Rightarrow> (Inl e, []) | Inr title \<Rightarrow>
     (case dict_get event_data ''event_found'' JNull of Inl e \<Rightarrow> (Inl e, []) | Inr found \<Rightarrow>
        if truthy found
        then add_to_calendar rt w google_creds calendar_id event_data
        else (Inr \<lparr>statusCode = 200,
                   body = dumps rt (JObj [(''status'', JStr ''No event found.'')])\<rparr>, []))))"

text \<open>From the inbound event to the response (lines 172 to 201).\<close>

definition process_message ::
  "runtime \<Rightarrow> world \<Rightarrow> string \<Rightarrow> json \<Rightarrow> string \<Rightarrow> json \<Rightarrow> (exn + result) \<times> call list" where
  "process_message rt w gemini_key google_creds calendar_id event =
     (case subscript event ''body'' of Inl e \<Rightarrow> (Inl e, []) | Inr raw_body \<Rightarrow>
     (case json_loads rt raw_body of Inl e \<Rightarrow> (Inl e, []) | Inr groupme_payload \<Rightarrow>
     (case dict_get groupme_payload ''sender_type'' JNull of Inl e \<Rightarrow> (Inl e, []) | Inr sender \<Rightarrow>
        if sender = JStr ''bot''
        then (Inr \<lparr>statusCode = 200, body = ''Ignored bot message''\<rparr>, [])
        else
     (case dict_get groupme_payload ''text'' (JStr []) of Inl e \<Rightarrow> (Inl e, []) | Inr raw_text \<Rightarrow>
     (case dict_get groupme_payload ''group_name'' (JStr ''Unknown Group'') of
        Inl e \<Rightarrow> (Inl e, []) | Inr group_name \<Rightarrow>
        if \<not> sliceable raw_text then (Inl (Fault Slice raw_text), [])
        else
     (case extract_event_data rt w gemini_key raw_text of
        (Inl e, t) \<Rightarrow> (Inl e, t)
      | (Inr extracted, t) \<Rightarrow>
          (case after_extraction rt w google_creds calendar_id group_name extracted of
             (r, t') \<Rightarrow> (r, t @ t'))))))))"

text \<open>The body of the outer \<^verbatim>\<open>try\<close> (lines 158 to 201).\<close>

definition handler_body :: "runtime \<Rightarrow> world \<Rightarrow> json \<Rightarrow> (exn + result) \<times> call list" where
  "handler_body rt w event =
     (case get_secret w S3_GEMINI_KEY_FILE of (gemini_key, t1) \<Rightarrow>
     (case get_secret w S3_GOOGLE_CREDS_FILE of (google_creds_json, t2) \<Rightarrow>
     (case get_secret w S3_CALENDAR_ID_FILE of (calendar_id, t3) \<Rightarrow>
     (case (gemini_key, google_creds_json, calendar_id) of
        (Some key, Some creds_json, Some cal_id) \<Rightarrow>
          (case json_loads rt (JStr creds_json) of
             Inl e \<Rightarrow> (Inl e, t1 @ t2 @ t3)
           | Inr google_creds \<Rightarrow>
               (case process_message rt w key google_creds cal_id event of
                  (r, t) \<Rightarrow> (r, t1 @ t2 @ t3 @ t)))
      | _ \<Rightarrow> (Inr \<lparr>statusCode = 500, body = dumps rt (JStr ''Missing secrets.'')\<rparr>,
              t1 @ t2 @ t3)))))"

text \<open>The handler: the response, and the external calls made, in order.\<close>

definition lambda_handler :: "runtime \<Rightarrow> world \<Rightarrow> json \<Rightarrow> result \<times> call list" where
  "lambda_handler rt w event =
     (case handler_body rt w event of
        (Inr r, t) \<Rightarrow> (r, t)
      | (Inl e, t) \<Rightarrow>
          if is_request_exception e
          then (\<lparr>statusCode = 500, body = dumps rt (JStr (''API Call Error: '' @ str_exn rt e))\<rparr>, t)
          else (\<lparr>statusCode = 500, body = dumps rt (JStr (''Unexpected Error: '' @ str_exn rt e))\<rparr>, t))"

section \<open>A sample deployment\<close>

text \<open>
  A runtime and a world to run the handler on. \<open>sample_loads\<close> and \<open>sample_dumps\<close> agree
  with \<^verbatim>\<open>json.loads\<close> and \<^verbatim>\<open>json.dumps\<close> on the texts and values used here (no
  numbers, no character that needs escaping); the theorems below hold for every runtime.
\<close>

primrec sample_dumps :: "json \<Rightarrow> string" where
  \<open>sample_dumps JNull = ''null''\<close>
| \<open>sample_dumps (JBool b) = (if b then ''true'' else ''false'')\<close>
| \<open>sample_dumps (JInt i) = ''0''\<close>
| \<open>sample_dumps (JFloat f) = ''0.0''\<close>
| \<open>sample_dumps (JStr s) = ''"'' @ s @ ''"''\<close>
| \<open>sample_dumps (JArr xs) = ''['' @ concat (map sample_dumps xs) @ '']''\<close>
| \<open>sample_dumps (JObj kv) =
     ''{'' @ drop 2 (concat (map (\<lambda>(k, v). '', "'' @ k @ ''": '' @ v)
                              (map (map_prod id sample_dumps) kv))) @ ''}''\<close>

definition sample_creds_text :: string where
  \<open>sample_creds_text =
     ''{"installed": {"client_id": "id", "client_secret": "cs", "refresh_token": "rt"}}''\<close>

definition sample_creds :: json where
  "sample_creds = JObj [(''installed'',
     JObj [(''client_id'', JStr ''id''), (''client_secret'', JStr ''cs''),
           (''refresh_token'', JStr ''rt'')])]"

definition creds_no_refresh_text :: string where
  \<open>creds_no_refresh_text = ''{"web": {"client_id": "id", "client_secret": "cs"}}''\<close>

definition creds_no_refresh :: json where
  "creds_no_refresh = JObj [(''web'',
     JObj [(''client_id'', JStr ''id''), (''client_secret'', JStr ''cs'')])]"

definition sample_message_text :: string where
  \<open>sample_message_text =
     ''{"sender_type": "user", "text": "Pickup game Friday at 6", "group_name": "FC Test"}''\<close>

definition sample_message :: json where
  "sample_message = JObj [(''sender_type'', JStr ''user''),
     (''text'', JStr ''Pickup game Friday at 6''), (''group_name'', JStr ''FC Test'')]"

definition bot_message_text :: string where
  \<open>bot_message_text = ''{"sender_type": "bot", "text": "Event added"}''\<close>

definition bot_message :: json where
  "bot_message = JObj [(''sender_type'', JStr ''bot''), (''text'', JStr ''Event added'')]"

definition sample_model_text :: string where
  \<open>sample_model_text = ''```json'' @ nl
     @ ''{"event_found": true, "title": "Pickup game", "date": "2025-11-07", "time": "18:00", "location": "Field 2", "description": "Weekly game"}''
     @ nl @ ''```''\<close>

definition sample_extracted_text :: string where
  \<open>sample_extracted_text = nl
     @ ''{"event_found": true, "title": "Pickup game", "date": "2025-11-07", "time": "18:00", "location": "Field 2", "description": "Weekly game"}''
     @ nl\<close>

definition sample_extracted :: json where
  "sample_extracted = JObj [(''event_found'', JBool True), (''title'', JStr ''Pickup game''),
     (''date'', JStr ''2025-11-07''), (''time'', JStr ''18:00''), (''location'', JStr ''Field 2''),
     (''description'', JStr ''Weekly game'')]"

definition undated_text :: string where
  \<open>undated_text =
     ''{"event_found": true, "title": "Party", "date": null, "time": null, "location": "", "description": "Party soon"}''\<close>

definition undated :: json where
  "undated = JObj [(''event_found'', JBool True), (''title'', JStr ''Party''),
     (''date'', JNull), (''time'', JNull), (''location'', JStr []),
     (''description'', JStr ''Party soon'')]"

definition bare_text :: string where
  \<open>bare_text = ''{"event_found": true}''\<close>

definition bare :: json where
  "bare = JObj [(''event_found'', JBool True)]"

definition untitled_text :: string where
  \<open>untitled_text = ''{"event_found": true, "date": "2025-12-31", "time": "23:30"}''\<close>

definition untitled :: json where
  "untitled = JObj [(''event_found'', JBool True), (''date'', JStr ''2025-12-31''),
     (''time'', JStr ''23:30'')]"

definition unflagged_model_text :: string where
  \<open>unflagged_model_text = ''```'' @ nl @ ''{"title": "Lunch"}'' @ nl @ ''```''\<close>

definition unflagged_text :: string where
  \<open>unflagged_text = nl @ ''{"title": "Lunch"}'' @ nl\<close>

definition unflagged :: json where
  "unflagged = JObj [(''title'', JStr ''Lunch'')]"

definition sample_loads :: "string \<Rightarrow> string + json" where
  "sample_loads s =
     (if s = sample_creds_text then Inr sample_creds
      else if s = creds_no_refresh_text then Inr creds_no_refresh
      else if s = sample_message_text then Inr sample_message
      else if s = bot_message_text then Inr bot_message
      else if s = sample_extracted_text then Inr sample_extracted
      else if s = undated_text then Inr undated
      else if s = bare_text then Inr bare
      else if s = untitled_text then Inr untitled
      else if s = unflagged_text then Inr unflagged
      else if s = ''{}'' then Inr (JObj [])
      else if s = ''[]'' then Inr (JArr [])
      else if s = ''null'' then Inr JNull
      else if s = ''{oops}''
        then Inl ''Expecting property name enclosed in double quotes: line 1 column 2 (char 1)''
      else Inl ''Expecting value: line 1 column 1 (char 0)'')"

fun sample_repr :: "json \<Rightarrow> string" where
  "sample_repr JNull = ''None''"
| "sample_repr (JBool b) = (if b then ''True'' else ''False'')"
| "sample_repr v = ''...''"

text \<open>The interpreter's text for the two errors of its own that the examples meet.\<close>

definition sample_describe :: "exn \<Rightarrow> string" where
  "sample_describe e =
     (case e of
        UnboundLocalError x \<Rightarrow>
          ''cannot access local variable '' @ [CHR 0x27] @ x @ [CHR 0x27]
          @ '' where it is not associated with a value''
      | Fault op v \<Rightarrow>
          (case (op, v) of
             (SetItem, JArr xs) \<Rightarrow> ''list indices must be integers or slices, not str''
           | _ \<Rightarrow> ''...'')
      | _ \<Rightarrow> ''...'')"

definition sample_runtime :: runtime where
  "sample_runtime = \<lparr>loads = sample_loads, dumps = sample_dumps, repr = sample_repr,
     describe = sample_describe\<rparr>"

text \<open>A successful Gemini response whose model text is \<open>text\<close>.\<close>

definition gemini_answer :: "string \<Rightarrow> response" where
  "gemini_answer text = \<lparr>raise_for_status = None, body_json = Inr (JObj [(''candidates'',
     JArr [JObj [(''content'', JObj [(''parts'', JArr [JObj [(''text'', JStr text)]])])]])])\<rparr>"

definition sample_world :: world where
  "sample_world = \<lparr>
     s3_get_object = (\<lambda>bucket k.
       if bucket \<noteq> S3_BUCKET_NAME then Inl (OtherError ''NoSuchBucket'')
       else if k = S3_GEMINI_KEY_FILE then Inr (''key-1'' @ nl)
       else if k = S3_GOOGLE_CREDS_FILE then Inr sample_creds_text
       else if k = S3_CALENDAR_ID_FILE then Inr ''primary''
       else Inl (OtherError ''NoSuchKey'')),
     gemini_post = (\<lambda>req. Inr (gemini_answer sample_model_text)),
     token_post = (\<lambda>req. Inr \<lparr>raise_for_status = None,
       body_json = Inr (JObj [(''access_token'', JStr ''ya29''), (''expires_in'', JInt 3599)])\<rparr>),
     calendar_post = (\<lambda>req. Inr \<lparr>raise_for_status = None,
       body_json = Inr (JObj [(''htmlLink'', JStr ''https://calendar.example/e1'')])\<rparr>),
     today = ''2025-11-04''\<rparr>"

definition sample_event :: json where
  "sample_event = JObj [(''body'', JStr sample_message_text)]"

definition bot_event :: json where
  "bot_event = JObj [(''body'', JStr bot_message_text)]"

definition malformed_event :: json where
  "malformed_event = JObj [(''body'', JStr ''not json'')]"

text \<open>The three secret fetches every invocation starts with.\<close>

definition secret_calls :: "world \<Rightarrow> call list" where
  "secret_calls w =
     [S3Get S3_GEMINI_KEY_FILE (s3_get_object w S3_BUCKET_NAME S3_GEMINI_KEY_FILE),
      S3Get S3_GOOGLE_CREDS_FILE (s3_get_object w S3_BUCKET_NAME S3_GOOGLE_CREDS_FILE),
      S3Get S3_CALENDAR_ID_FILE (s3_get_object w S3_BUCKET_NAME S3_CALENDAR_ID_FILE)]"

section \<open>Evaluation rules\<close>

lemmas handler_defs = lambda_handler_def handler_body_def process_message_def get_secret_def
  after_extraction_def extract_event_data_def parse_gemini_response_def gemini_text_def ok_def
  add_to_calendar_def refresh_access_token_def unwrap_creds_def request_token_def
  create_google_event_def event_times_def event_not_found_def invalid_date_time_def
  secret_calls_def

lemmas sample_defs = sample_runtime_def sample_describe_def unflagged_model_text_def
  unflagged_text_def unflagged_def sample_world_def sample_event_def bot_event_def
  malformed_event_def sample_loads_def sample_creds_text_def sample_creds_def
  creds_no_refresh_text_def creds_no_refresh_def sample_message_text_def sample_message_def
  bot_message_text_def bot_message_def sample_model_text_def sample_extracted_text_def
  sample_extracted_def undated_text_def undated_def bare_text_def bare_def untitled_text_def
  untitled_def gemini_answer_def S3_BUCKET_NAME_def S3_GEMINI_KEY_FILE_def
  S3_GOOGLE_CREDS_FILE_def S3_CALENDAR_ID_FILE_def TIMEZONE_def nl_def

lemmas strip_defs = strip_def strip_fences_def lstrip_chars_def rstrip_chars_def py_isspace_def
  unfenced_by_spec_def remove_prefix_def remove_suffix_def

lemmas time_defs = strptime_def strptime_matches_def dir_m_def dir_d_def dir_H_def dir_M_def
  dir_S_def is_digit_def in_range_def digit_val_def valid_datetime_def days_in_month_def
  is_leap_def plus_one_hour_def isoformat_def pad2_def pad4_def dig_def

section \<open>Secrets\<close>

lemma get_secret_trace:
  "snd (get_secret w k) = [S3Get k (s3_get_object w S3_BUCKET_NAME k)]"
  by (simp add: get_secret_def Let_def)

lemma get_secret_None_iff:
  "fst (get_secret w k) = None \<longleftrightarrow>
     (case s3_get_object w S3_BUCKET_NAME k of Inl e \<Rightarrow> True | Inr content \<Rightarrow> strip content = [])"
  by (simp add: get_secret_def Let_def split: sum.splits)

lemma get_secret_Some_nonempty: "fst (get_secret w k) = Some s \<Longrightarrow> s \<noteq> []"
  by (auto simp: get_secret_def Let_def split: sum.splits if_splits)

text \<open>
  C6. When one of the three secret fetches raises or yields text that is empty once
  stripped, \<open>get_secret\<close> returns \<open>None\<close> for it (no default is put in its place) and the
  handler answers 500 with the body \<^verbatim>\<open>"Missing secrets."\<close>; the only external calls of
  the invocation are the three S3 reads, so no AI call was attempted.
\<close>

theorem missing_secret_is_500:
  assumes "k \<in> {S3_GEMINI_KEY_FILE, S3_GOOGLE_CREDS_FILE, S3_CALENDAR_ID_FILE}"
    and "case s3_get_object w S3_BUCKET_NAME k of
           Inl e \<Rightarrow> True | Inr content \<Rightarrow> strip content = []"
  shows "fst (get_secret w k) = None \<and>
         lambda_handler rt w event =
           (\<lparr>statusCode = 500, body = dumps rt (JStr ''Missing secrets.'')\<rparr>, secret_calls w)"
proof -
  have none: "fst (get_secret w k) = None"
    using assms(2) by (simp add: get_secret_None_iff)
  obtain a ta where a: "get_secret w S3_GEMINI_KEY_FILE = (a, ta)"
    by (cases "get_secret w S3_GEMINI_KEY_FILE")
  obtain b tb where b: "get_secret w S3_GOOGLE_CREDS_FILE = (b, tb)"
    by (cases "get_secret w S3_GOOGLE_CREDS_FILE")
  obtain c tc where c: "get_secret w S3_CALENDAR_ID_FILE = (c, tc)"
    by (cases "get_secret w S3_CALENDAR_ID_FILE")
  have t: "ta @ tb @ tc = secret_calls w"
    using a b c get_secret_trace [of w S3_GEMINI_KEY_FILE]
      get_secret_trace [of w S3_GOOGLE_CREDS_FILE] get_secret_trace [of w S3_CALENDAR_ID_FILE]
    by (simp add: secret_calls_def)
  have "a = None \<or> b = None \<or> c = None"
    using assms(1) none a b c by auto
  then have "handler_body rt w event =
      (Inr \<lparr>statusCode = 500, body = dumps rt (JStr ''Missing secrets.'')\<rparr>, ta @ tb @ tc)"
    by (auto simp: handler_body_def a b c split: option.splits)
  then show ?thesis
    using none t by (simp add: lambda_handler_def)
qed

theorem missing_secret_is_500_witness:
  \<open>S3_CALENDAR_ID_FILE \<in> {S3_GEMINI_KEY_FILE, S3_GOOGLE_CREDS_FILE, S3_CALENDAR_ID_FILE}
   \<and> s3_get_object (sample_world\<lparr>s3_get_object := \<lambda>b k. Inr ''  ''\<rparr>) S3_BUCKET_NAME
        S3_CALENDAR_ID_FILE = Inr ''  ''
   \<and> strip ''  '' = []
   \<and> lambda_handler sample_runtime (sample_world\<lparr>s3_get_object := \<lambda>b k. Inr ''  ''\<rparr>) sample_event =
       (\<lparr>statusCode = 500, body = ''"Missing secrets."''\<rparr>,
        [S3Get ''gemini_api_key.txt'' (Inr ''  ''), S3Get ''google_creds.json'' (Inr ''  ''),
         S3Get ''calendar_id.txt'' (Inr ''  '')])\<close>
  using missing_secret_is_500 [of S3_CALENDAR_ID_FILE "sample_world\<lparr>s3_get_object := \<lambda>b k. Inr ''  ''\<rparr>"
      sample_runtime sample_event]
  by (simp add: sample_defs strip_defs secret_calls_def)

section \<open>Which calls an invocation makes\<close>

lemma refresh_trace_token:
  "c \<in> set (snd (refresh_access_token w creds)) \<Longrightarrow> is_token_post c"
  by (auto simp: refresh_access_token_def request_token_def Let_def split: sum.splits if_splits)

lemma create_trace_calendar:
  "c \<in> set (snd (create_google_event rt w tok cal ev)) \<Longrightarrow> is_calendar_post c"
  by (auto simp: create_google_event_def Let_def split: sum.splits option.splits if_splits)

lemma add_to_calendar_trace:
  "c \<in> set (snd (add_to_calendar rt w creds cal ev)) \<Longrightarrow> is_token_post c \<or> is_calendar_post c"
  by (auto simp: add_to_calendar_def split: sum.splits prod.splits if_splits
      dest: refresh_trace_token create_trace_calendar
      dest!: arg_cong [where f = snd])

lemma after_extraction_trace:
  "c \<in> set (snd (after_extraction rt w creds cal gn x)) \<Longrightarrow> is_token_post c \<or> is_calendar_post c"
  by (auto simp: after_extraction_def split: sum.splits if_splits dest: add_to_calendar_trace)

lemma extract_trace:
  "snd (extract_event_data rt w key raw) =
     (if key = [] then []
      else [GeminiPost \<lparr>api_key = key, prompt = build_prompt rt (today w) raw\<rparr>
             (gemini_post w \<lparr>api_key = key, prompt = build_prompt rt (today w) raw\<rparr>)])"
  by (simp add: extract_event_data_def Let_def)

lemma handler_trace: "snd (lambda_handler rt w ev) = snd (handler_body rt w ev)"
  by (simp add: lambda_handler_def split: prod.splits sum.splits)

lemma handler_body_unfold:
  "handler_body rt w ev =
     (case (fst (get_secret w S3_GEMINI_KEY_FILE), fst (get_secret w S3_GOOGLE_CREDS_FILE),
            fst (get_secret w S3_CALENDAR_ID_FILE)) of
        (Some key, Some cj, Some cal) \<Rightarrow>
          (case json_loads rt (JStr cj) of
             Inl e \<Rightarrow> (Inl e, secret_calls w)
           | Inr creds \<Rightarrow>
               (case process_message rt w key creds cal ev of (r, t) \<Rightarrow> (r, secret_calls w @ t)))
      | _ \<Rightarrow> (Inr \<lparr>statusCode = 500, body = dumps rt (JStr ''Missing secrets.'')\<rparr>, secret_calls w))"
  by (simp add: handler_body_def get_secret_def secret_calls_def Let_def
       split: prod.splits option.splits sum.splits)

lemma process_message_reached:
  assumes "subscript ev ''body'' = Inr rb" "json_loads rt rb = Inr p"
    "dict_get p ''sender_type'' JNull = Inr s" "s \<noteq> JStr ''bot''"
    "dict_get p ''text'' (JStr []) = Inr raw"
    "dict_get p ''group_name'' (JStr ''Unknown Group'') = Inr gn" "sliceable raw"
  shows "process_message rt w key creds cal ev =
     (case extract_event_data rt w key raw of
        (Inl e, t) \<Rightarrow> (Inl e, t)
      | (Inr x, t) \<Rightarrow> (case after_extraction rt w creds cal gn x of (r, t') \<Rightarrow> (r, t @ t')))"
  using assms by (simp add: process_message_def)

lemma process_message_not_reached:
  assumes "\<not> (\<exists>rb p s raw gn. subscript ev ''body'' = Inr rb \<and> json_loads rt rb = Inr p
    \<and> dict_get p ''sender_type'' JNull = Inr s \<and> s \<noteq> JStr ''bot''
    \<and> dict_get p ''text'' (JStr []) = Inr raw
    \<and> dict_get p ''group_name'' (JStr ''Unknown Group'') = Inr gn \<and> sliceable raw)"
  shows "snd (process_message rt w key creds cal ev) = []"
  using assms by (auto simp: process_message_def split: sum.splits)

lemma process_message_gemini:
  assumes "GeminiPost req r \<in> set (snd (process_message rt w key creds cal ev))"
  shows "\<exists>raw_text group_name.
           key \<noteq> [] \<and> req = \<lparr>api_key = key, prompt = build_prompt rt (today w) raw_text\<rparr>
           \<and> r = gemini_post w req
           \<and> process_message rt w key creds cal ev =
               (case fst (extract_event_data rt w key raw_text) of
                  Inl e \<Rightarrow> (Inl e, [GeminiPost req r])
                | Inr x \<Rightarrow>
                    (case after_extraction rt w creds cal group_name x of
                       (res, t) \<Rightarrow> (res, GeminiPost req r # t)))"
proof -
  from assms have "snd (process_message rt w key creds cal ev) \<noteq> []" by auto
  then obtain rb p s raw gn where reached:
    "subscript ev ''body'' = Inr rb" "json_loads rt rb = Inr p"
    "dict_get p ''sender_type'' JNull = Inr s" "s \<noteq> JStr ''bot''"
    "dict_get p ''text'' (JStr []) = Inr raw"
    "dict_get p ''group_name'' (JStr ''Unknown Group'') = Inr gn" "sliceable raw"
    using process_message_not_reached [of ev rt w key creds cal] by blast
  note pm = process_message_reached [OF reached, of w key creds cal]
  obtain x t where ex: "extract_event_data rt w key raw = (x, t)"
    by (cases "extract_event_data rt w key raw")
  have t: "t = (if key = [] then []
      else [GeminiPost \<lparr>api_key = key, prompt = build_prompt rt (today w) raw\<rparr>
             (gemini_post w \<lparr>api_key = key, prompt = build_prompt rt (today w) raw\<rparr>)])"
    using extract_trace [of rt w key raw] ex by simp
  have mem: "GeminiPost req r \<in> set t"
  proof (cases x)
    case (Inl e)
    then show ?thesis using assms pm ex by simp
  next
    case (Inr v)
    obtain res t' where ae: "after_extraction rt w creds cal gn v = (res, t')"
      by (cases "after_extraction rt w creds cal gn v")
    have "GeminiPost req r \<notin> set t'"
      using after_extraction_trace [of "GeminiPost req r" rt w creds cal gn v] ae by auto
    then show ?thesis using assms pm ex Inr ae by simp
  qed
  then have key: "key \<noteq> []" and req: "req = \<lparr>api_key = key, prompt = build_prompt rt (today w) raw\<rparr>"
    and r: "r = gemini_post w req"
    using t by (auto split: if_splits)
  have "process_message rt w key creds cal ev =
               (case fst (extract_event_data rt w key raw) of
                  Inl e \<Rightarrow> (Inl e, [GeminiPost req r])
                | Inr x \<Rightarrow>
                    (case after_extraction rt w creds cal gn x of
                       (res, t) \<Rightarrow> (res, GeminiPost req r # t)))"
    using pm ex t key req r by (simp split: sum.splits prod.splits)
  then show ?thesis using key req r by blast
qed

lemma handler_gemini:
  assumes "GeminiPost req r \<in> set (snd (lambda_handler rt w ev))"
  shows "\<exists>key cj creds cal raw_text group_name.
           fst (get_secret w S3_GOOGLE_CREDS_FILE) = Some cj \<and> loads rt cj = Inr creds
           \<and> fst (get_secret w S3_CALENDAR_ID_FILE) = Some cal \<and> key \<noteq> []
           \<and> req = \<lparr>api_key = key, prompt = build_prompt rt (today w) raw_text\<rparr>
           \<and> r = gemini_post w req
           \<and> handler_body rt w ev =
               (case fst (extract_event_data rt w key raw_text) of
                  Inl e \<Rightarrow> (Inl e, secret_calls w @ [GeminiPost req r])
                | Inr x \<Rightarrow>
                    (case after_extraction rt w creds cal group_name x of
                       (res, t) \<Rightarrow> (res, secret_calls w @ GeminiPost req r # t)))"
proof -
  have mem: "GeminiPost req r \<in> set (snd (handler_body rt w ev))"
    using assms by (simp add: handler_trace)
  have ns: "GeminiPost req r \<notin> set (secret_calls w)"
    by (simp add: secret_calls_def)
  obtain key cj cal where secrets: "fst (get_secret w S3_GEMINI_KEY_FILE) = Some key"
    "fst (get_secret w S3_GOOGLE_CREDS_FILE) = Some cj"
    "fst (get_secret w S3_CALENDAR_ID_FILE) = Some cal"
    using mem ns by (auto simp: handler_body_unfold split: option.splits)
  obtain creds where creds: "loads rt cj = Inr creds"
    using mem ns secrets by (auto simp: handler_body_unfold split: sum.splits)
  have hb: "handler_body rt w ev =
      (case process_message rt w key creds cal ev of (r, t) \<Rightarrow> (r, secret_calls w @ t))"
    using secrets creds by (simp add: handler_body_unfold)
  then have "GeminiPost req r \<in> set (snd (process_message rt w key creds cal ev))"
    using mem ns by (auto split: prod.splits)
  from process_message_gemini [OF this] obtain raw_text group_name where
    key: "key \<noteq> []" and req: "req = \<lparr>api_key = key, prompt = build_prompt rt (today w) raw_text\<rparr>"
    and r: "r = gemini_post w req"
    and pm: "process_message rt w key creds cal ev =
               (case fst (extract_event_data rt w key raw_text) of
                  Inl e \<Rightarrow> (Inl e, [GeminiPost req r])
                | Inr x \<Rightarrow>
                    (case after_extraction rt w creds cal group_name x of
                       (res, t) \<Rightarrow> (res, GeminiPost req r # t)))"
    by blast
  have "handler_body rt w ev =
               (case fst (extract_event_data rt w key raw_text) of
                  Inl e \<Rightarrow> (Inl e, secret_calls w @ [GeminiPost req r])
                | Inr x \<Rightarrow>
                    (case after_extraction rt w creds cal group_name x of
                       (res, t) \<Rightarrow> (res, secret_calls w @ GeminiPost req r # t)))"
    unfolding hb pm by (simp split: sum.splits prod.splits)
  then show ?thesis using secrets creds key req r by blast
qed

lemma after_extraction_not_found:
  "after_extraction rt w creds cal gn event_not_found =
     (Inr \<lparr>statusCode = 200, body = dumps rt (JObj [(''status'', JStr ''No event found.'')])\<rparr>, [])"
  by (simp add: after_extraction_def event_not_found_def)

lemma after_extraction_absent:
  "map_of kv ''event_found'' = None \<Longrightarrow>
   after_extraction rt w creds cal gn (JObj kv) =
     (Inr \<lparr>statusCode = 200, body = dumps rt (JObj [(''status'', JStr ''No event found.'')])\<rparr>, [])"
  by (simp add: after_extraction_def update_conv')

lemma handler_of_body:
  "handler_body rt w ev = (Inr res, t) \<Longrightarrow> lambda_handler rt w ev = (res, t)"
  by (simp add: lambda_handler_def)

section \<open>The inbound message\<close>

lemma handler_body_loaded:
  assumes "fst (get_secret w S3_GEMINI_KEY_FILE) = Some key"
    and "fst (get_secret w S3_GOOGLE_CREDS_FILE) = Some cj"
    and "fst (get_secret w S3_CALENDAR_ID_FILE) = Some cal"
    and "loads rt cj = Inr creds"
  shows "handler_body rt w ev =
     (case process_message rt w key creds cal ev of (r, t) \<Rightarrow> (r, secret_calls w @ t))"
  using assms by (simp add: handler_body_unfold)

text \<open>
  C1, as the code has it. The secrets are fetched before the message is read. For a payload
  whose \<^verbatim>\<open>sender_type\<close> is \<^verbatim>\<open>"bot"\<close>, once the three secrets are there and the
  credentials parse, the handler answers 200 with the body \<^verbatim>\<open>Ignored bot message\<close>; its
  calls are the three S3 reads: no AI call, no token refresh, no calendar call.
\<close>

theorem bot_message_ignored:
  assumes "fst (get_secret w S3_GEMINI_KEY_FILE) = Some key"
    and "fst (get_secret w S3_GOOGLE_CREDS_FILE) = Some cj"
    and "fst (get_secret w S3_CALENDAR_ID_FILE) = Some cal"
    and "loads rt cj = Inr creds"
    and "subscript event ''body'' = Inr (JStr b)"
    and "loads rt b = Inr (JObj payload)"
    and "map_of payload ''sender_type'' = Some (JStr ''bot'')"
  shows "lambda_handler rt w event =
           (\<lparr>statusCode = 200, body = ''Ignored bot message''\<rparr>, secret_calls w)"
proof -
  have "process_message rt w key creds cal event =
      (Inr \<lparr>statusCode = 200, body = ''Ignored bot message''\<rparr>, [])"
    using assms(5-7) by (simp add: process_message_def)
  then show ?thesis
    using handler_body_loaded [OF assms(1-4), of event] by (simp add: handler_of_body)
qed

theorem bot_message_ignored_witness:
  \<open>fst (get_secret sample_world S3_GEMINI_KEY_FILE) = Some ''key-1''
   \<and> fst (get_secret sample_world S3_GOOGLE_CREDS_FILE) = Some sample_creds_text
   \<and> fst (get_secret sample_world S3_CALENDAR_ID_FILE) = Some ''primary''
   \<and> loads sample_runtime sample_creds_text = Inr sample_creds
   \<and> subscript bot_event ''body'' = Inr (JStr bot_message_text)
   \<and> loads sample_runtime bot_message_text =
       Inr (JObj [(''sender_type'', JStr ''bot''), (''text'', JStr ''Event added'')])
   \<and> lambda_handler sample_runtime sample_world bot_event =
       (\<lparr>statusCode = 200, body = ''Ignored bot message''\<rparr>,
        [S3Get ''gemini_api_key.txt'' (Inr (''key-1'' @ nl)),
         S3Get ''google_creds.json'' (Inr sample_creds_text),
         S3Get ''calendar_id.txt'' (Inr ''primary'')])\<close>
  using bot_message_ignored [where w = sample_world and key = "''key-1''"
      and cj = sample_creds_text and cal = "''primary''" and rt = sample_runtime
      and creds = sample_creds and event = bot_event and b = bot_message_text
      and payload = "[(''sender_type'', JStr ''bot''), (''text'', JStr ''Event added'')]"]
  by (simp add: get_secret_def secret_calls_def sample_defs strip_defs Let_def)

theorem bot_message_counterexample:
  \<open>lambda_handler sample_runtime
      (sample_world\<lparr>s3_get_object := \<lambda>b k. Inl (OtherError ''AccessDenied'')\<rparr>) bot_event =
     (\<lparr>statusCode = 500, body = ''"Missing secrets."''\<rparr>,
      [S3Get ''gemini_api_key.txt'' (Inl (OtherError ''AccessDenied'')),
       S3Get ''google_creds.json'' (Inl (OtherError ''AccessDenied'')),
       S3Get ''calendar_id.txt'' (Inl (OtherError ''AccessDenied''))])\<close>
  by (simp add: handler_defs sample_defs Let_def)

text \<open>
  C3, as the code has it. An event whose body is not valid JSON gets a 500 response, and
  the invocation makes no AI call, no token refresh and no calendar call. When the secrets
  are there and the credentials parse, the body of the response is the decoder's message
  after \<^verbatim>\<open>Unexpected Error: \<close>.
\<close>

theorem malformed_body_is_500:
  assumes "subscript event ''body'' = Inr (JStr b)" and "loads rt b = Inl msg"
  shows "statusCode (fst (lambda_handler rt w event)) = 500
       \<and> snd (lambda_handler rt w event) = secret_calls w
       \<and> (fst (get_secret w S3_GEMINI_KEY_FILE) = Some key
            \<and> fst (get_secret w S3_GOOGLE_CREDS_FILE) = Some cj
            \<and> fst (get_secret w S3_CALENDAR_ID_FILE) = Some cal
            \<and> loads rt cj = Inr creds
          \<longrightarrow> body (fst (lambda_handler rt w event)) =
                dumps rt (JStr (''Unexpected Error: '' @ msg)))"
proof -
  have pm: "process_message rt w k c i event = (Inl (JSONDecodeError msg), [])" for k c i
    using assms by (simp add: process_message_def)
  have "statusCode (fst (lambda_handler rt w event)) = 500
       \<and> snd (lambda_handler rt w event) = secret_calls w"
    by (simp add: lambda_handler_def handler_body_unfold pm split: option.splits sum.splits)
  moreover have "body (fst (lambda_handler rt w event)) =
                dumps rt (JStr (''Unexpected Error: '' @ msg))"
    if "fst (get_secret w S3_GEMINI_KEY_FILE) = Some key"
      "fst (get_secret w S3_GOOGLE_CREDS_FILE) = Some cj"
      "fst (get_secret w S3_CALENDAR_ID_FILE) = Some cal" "loads rt cj = Inr creds"
    using handler_body_loaded [OF that, of event] by (simp add: lambda_handler_def pm)
  ultimately show ?thesis by blast
qed

theorem malformed_body_is_500_witness:
  \<open>subscript malformed_event ''body'' = Inr (JStr ''not json'')
   \<and> loads sample_runtime ''not json'' = Inl ''Expecting value: line 1 column 1 (char 0)''
   \<and> fst (get_secret sample_world S3_GEMINI_KEY_FILE) = Some ''key-1''
   \<and> fst (get_secret sample_world S3_GOOGLE_CREDS_FILE) = Some sample_creds_text
   \<and> fst (get_secret sample_world S3_CALENDAR_ID_FILE) = Some ''primary''
   \<and> loads sample_runtime sample_creds_text = Inr sample_creds
   \<and> statusCode (fst (lambda_handler sample_runtime sample_world malformed_event)) = 500
   \<and> snd (lambda_handler sample_runtime sample_world malformed_event) = secret_calls sample_world
   \<and> body (fst (lambda_handler sample_runtime sample_world malformed_event)) =
       ''"Unexpected Error: Expecting value: line 1 column 1 (char 0)"''\<close>
  using malformed_body_is_500 [where event = malformed_event and b = "''not json''"
      and rt = sample_runtime and msg = "''Expecting value: line 1 column 1 (char 0)''"
      and w = sample_world and key = "''key-1''" and cj = sample_creds_text
      and cal = "''primary''" and creds = sample_creds]
  by (simp add: get_secret_def sample_defs strip_defs Let_def)

theorem malformed_body_counterexample:
  \<open>lambda_handler sample_runtime sample_world malformed_event =
     (\<lparr>statusCode = 500,
        body = ''"Unexpected Error: Expecting value: line 1 column 1 (char 0)"''\<rparr>,
      [S3Get ''gemini_api_key.txt'' (Inr (''key-1'' @ nl)),
       S3Get ''google_creds.json'' (Inr sample_creds_text),
       S3Get ''calendar_id.txt'' (Inr ''primary'')])\<close>
  by (simp add: handler_defs sample_defs strip_defs Let_def)

section \<open>The calendar event\<close>

text \<open>
  C2 fails on the code. The model answers with \<^verbatim>\<open>event_found\<close> true and a null date and
  time, as the prompt allows. \<open>create_google_event\<close> cannot build the start time and
  returns its error record without raising; the handler does not look at it and answers
  200 with \<^verbatim>\<open>{"status": "Event created.", "link": null}\<close>. No calendar call was made.
\<close>

theorem unparsed_date_reported_created:
  \<open>fst (lambda_handler sample_runtime
          (sample_world\<lparr>gemini_post := \<lambda>q. Inr (gemini_answer undated_text)\<rparr>) sample_event) =
     \<lparr>statusCode = 200, body = ''{"status": "Event created.", "link": null}''\<rparr>
   \<and> filter is_calendar_post (snd (lambda_handler sample_runtime
          (sample_world\<lparr>gemini_post := \<lambda>q. Inr (gemini_answer undated_text)\<rparr>) sample_event)) = []
   \<and> create_google_event sample_runtime sample_world (JStr ''ya29'') ''primary''
        (JObj [(''event_found'', JBool True), (''title'', JStr ''Party''), (''date'', JNull),
               (''time'', JNull), (''location'', JStr []), (''description'', JStr ''Party soon''),
               (''group_context'', JStr ''FC Test'')]) =
       (Inr (JObj [(''status'', JStr ''error''), (''message'', JStr ''Invalid date/time'')]), [])\<close>
  by (simp add: handler_defs sample_defs strip_defs time_defs Let_def)

lemma unwrap_flat:
  "map_of kv ''installed'' = None \<Longrightarrow> map_of kv ''web'' = None \<Longrightarrow>
   unwrap_creds (JObj kv) = Inr (JObj kv)"
  by (simp add: unwrap_creds_def)

lemma unwrap_installed:
  "map_of outer ''installed'' = Some c \<Longrightarrow> unwrap_creds (JObj outer) = Inr c"
  by (simp add: unwrap_creds_def)

lemma unwrap_web:
  "map_of outer ''installed'' = None \<Longrightarrow> map_of outer ''web'' = Some c \<Longrightarrow>
   unwrap_creds (JObj outer) = Inr c"
  by (simp add: unwrap_creds_def)

lemma request_token_missing:
  assumes "f \<in> {''client_id'', ''client_secret'', ''refresh_token''}"
    and "case map_of kv f of None \<Rightarrow> True | Some v \<Rightarrow> \<not> truthy v"
  shows "request_token w (JObj kv) = (Inr JNull, [])"
  using assms by (auto simp: request_token_def split: option.splits)

lemma after_extraction_found:
  assumes "map_of ekv ''event_found'' = Some f" and "truthy f"
  shows "after_extraction rt w creds cal gn (JObj ekv) =
     add_to_calendar rt w creds cal (JObj (AList.update ''group_context'' gn ekv))"
  using assms by (simp add: after_extraction_def update_conv')

lemma handler_event_found:
  assumes called: "GeminiPost req (Inr resp) \<in> set (snd (lambda_handler rt w event))"
    and resp: "raise_for_status resp = None" "parse_gemini_response rt resp = Inr (JObj ekv)"
    and found: "map_of ekv ''event_found'' = Some f" "truthy f"
    and creds: "fst (get_secret w S3_GOOGLE_CREDS_FILE) = Some cj" "loads rt cj = Inr creds"
  shows "\<exists>cal gn. fst (get_secret w S3_CALENDAR_ID_FILE) = Some cal \<and>
     handler_body rt w event =
       (case add_to_calendar rt w creds cal (JObj (AList.update ''group_context'' gn ekv)) of
          (res, t) \<Rightarrow> (res, secret_calls w @ GeminiPost req (Inr resp) # t))"
proof -
  from handler_gemini [OF called] obtain k cj' creds' cal raw' gn where
    c: "fst (get_secret w S3_GOOGLE_CREDS_FILE) = Some cj'" "loads rt cj' = Inr creds'"
    and cal: "fst (get_secret w S3_CALENDAR_ID_FILE) = Some cal"
    and k: "k \<noteq> []" and req: "req = \<lparr>api_key = k, prompt = build_prompt rt (today w) raw'\<rparr>"
    and r: "Inr resp = gemini_post w req"
    and hb: "handler_body rt w event =
             (case fst (extract_event_data rt w k raw') of
                Inl e \<Rightarrow> (Inl e, secret_calls w @ [GeminiPost req (Inr resp)])
              | Inr x \<Rightarrow>
                  (case after_extraction rt w creds' cal gn x of
                     (res, t) \<Rightarrow> (res, secret_calls w @ GeminiPost req (Inr resp) # t)))"
    by blast
  have same: "creds' = creds" using c creds by simp
  have ex: "fst (extract_event_data rt w k raw') = Inr (JObj ekv)"
    using r [symmetric] req resp k by (simp add: extract_event_data_def Let_def)
  have "handler_body rt w event =
       (case add_to_calendar rt w creds cal (JObj (AList.update ''group_context'' gn ekv)) of
          (res, t) \<Rightarrow> (res, secret_calls w @ GeminiPost req (Inr resp) # t))"
    using hb ex same by (simp add: after_extraction_found [OF found])
  then show ?thesis using cal by blast
qed

section \<open>The token refresher\<close>

text \<open>
  C7. Credentials nested under \<^verbatim>\<open>installed\<close>, or else under \<^verbatim>\<open>web\<close>, are refreshed as the
  record inside. For a flat record: when \<^verbatim>\<open>client_id\<close>, \<^verbatim>\<open>client_secret\<close> or
  \<^verbatim>\<open>refresh_token\<close> is missing or empty the refresher returns \<^verbatim>\<open>None\<close> without calling the
  token endpoint; otherwise it makes one call with the three fields, raises what the call,
  \<^verbatim>\<open>raise_for_status\<close> or \<^verbatim>\<open>json()\<close> raises, and returns the \<^verbatim>\<open>access_token\<close> of the
  answer. In an invocation where the extractor found an event and the credential record
  has no \<^verbatim>\<open>refresh_token\<close>, the handler answers 500 with
  \<^verbatim>\<open>"Failed to refresh Google access token."\<close> and calls neither the token endpoint nor the
  calendar.
\<close>

theorem token_refresh_outcomes:
  assumes flat: "map_of kv ''installed'' = None" "map_of kv ''web'' = None"
  shows "(map_of outer ''installed'' = Some (JObj kv)
            \<or> map_of outer ''installed'' = None \<and> map_of outer ''web'' = Some (JObj kv)
          \<longrightarrow> refresh_access_token w (JObj outer) = refresh_access_token w (JObj kv))
       \<and> (field \<in> {''client_id'', ''client_secret'', ''refresh_token''}
            \<and> (case map_of kv field of None \<Rightarrow> True | Some v \<Rightarrow> \<not> truthy v)
          \<longrightarrow> refresh_access_token w (JObj kv) = (Inr JNull, []))
       \<and> (map_of kv ''client_id'' = Some cid \<and> truthy cid
            \<and> map_of kv ''client_secret'' = Some csecret \<and> truthy csecret
            \<and> map_of kv ''refresh_token'' = Some rtoken \<and> truthy rtoken
            \<and> q = \<lparr>client_id = cid, client_secret = csecret, refresh_token = rtoken,
                     grant_type = ''refresh_token''\<rparr>
          \<longrightarrow> snd (refresh_access_token w (JObj kv)) = [TokenPost q (token_post w q)]
              \<and> (token_post w q = Inl e \<longrightarrow> fst (refresh_access_token w (JObj kv)) = Inl e)
              \<and> (token_post w q = Inr resp \<and> raise_for_status resp = Some e
                    \<longrightarrow> fst (refresh_access_token w (JObj kv)) = Inl e)
              \<and> (token_post w q = Inr resp \<and> raise_for_status resp = None
                    \<and> body_json resp = Inl e
                    \<longrightarrow> fst (refresh_access_token w (JObj kv)) = Inl e)
              \<and> (token_post w q = Inr resp \<and> raise_for_status resp = None
                    \<and> body_json resp = Inr (JObj answer)
                    \<and> map_of answer ''access_token'' = Some token
                    \<longrightarrow> fst (refresh_access_token w (JObj kv)) = Inr token))
       \<and> (GeminiPost req (Inr gresp) \<in> set (snd (lambda_handler rt w event))
            \<and> raise_for_status gresp = None
            \<and> parse_gemini_response rt gresp = Inr (JObj ekv)
            \<and> map_of ekv ''event_found'' = Some found \<and> truthy found
            \<and> fst (get_secret w S3_GOOGLE_CREDS_FILE) = Some cj
            \<and> (loads rt cj = Inr (JObj kv)
                 \<or> loads rt cj = Inr (JObj [(''installed'', JObj kv)])
                 \<or> loads rt cj = Inr (JObj [(''web'', JObj kv)]))
            \<and> map_of kv ''refresh_token'' = None
          \<longrightarrow> lambda_handler rt w event =
                (\<lparr>statusCode = 500,
                   body = dumps rt (JStr ''Failed to refresh Google access token.'')\<rparr>,
                 secret_calls w @ [GeminiPost req (Inr gresp)]))"
proof -
  have flat_eq: "refresh_access_token w (JObj kv) = request_token w (JObj kv)"
    by (simp add: refresh_access_token_def unwrap_flat [OF flat])
  have nested: "refresh_access_token w (JObj outer) = refresh_access_token w (JObj kv)"
    if "map_of outer ''installed'' = Some (JObj kv)
            \<or> map_of outer ''installed'' = None \<and> map_of outer ''web'' = Some (JObj kv)"
    for outer
    using that flat_eq by (auto simp: refresh_access_token_def unwrap_installed unwrap_web)
  have missing: "refresh_access_token w (JObj kv) = (Inr JNull, [])"
    if "field \<in> {''client_id'', ''client_secret'', ''refresh_token''}"
       "case map_of kv field of None \<Rightarrow> True | Some v \<Rightarrow> \<not> truthy v" for field
    using flat_eq request_token_missing [OF that] by simp
  have present: "refresh_access_token w (JObj kv) =
      (case token_post w q of
         Inl e \<Rightarrow> Inl e
       | Inr resp \<Rightarrow>
           (case raise_for_status resp of
              Some e \<Rightarrow> Inl e
            | None \<Rightarrow>
                (case body_json resp of
                   Inl e \<Rightarrow> Inl e
                 | Inr token_response \<Rightarrow>
                     (case dict_get token_response ''expires_in'' JNull of
                        Inl e \<Rightarrow> Inl e
                      | Inr expires \<Rightarrow> subscript token_response ''access_token''))),
       [TokenPost q (token_post w q)])"
    if "map_of kv ''client_id'' = Some cid" "truthy cid"
       "map_of kv ''client_secret'' = Some csecret" "truthy csecret"
       "map_of kv ''refresh_token'' = Some rtoken" "truthy rtoken"
       "q = \<lparr>client_id = cid, client_secret = csecret, refresh_token = rtoken,
                     grant_type = ''refresh_token''\<rparr>"
    using that by (simp add: flat_eq request_token_def Let_def)
  have handler: "lambda_handler rt w event =
                (\<lparr>statusCode = 500,
                   body = dumps rt (JStr ''Failed to refresh Google access token.'')\<rparr>,
                 secret_calls w @ [GeminiPost req (Inr gresp)])"
    if called: "GeminiPost req (Inr gresp) \<in> set (snd (lambda_handler rt w event))"
      and gresp: "raise_for_status gresp = None" "parse_gemini_response rt gresp = Inr (JObj ekv)"
      and found: "map_of ekv ''event_found'' = Some found" "truthy found"
      and cj: "fst (get_secret w S3_GOOGLE_CREDS_FILE) = Some cj"
      and shape: "loads rt cj = Inr (JObj kv)
                 \<or> loads rt cj = Inr (JObj [(''installed'', JObj kv)])
                 \<or> loads rt cj = Inr (JObj [(''web'', JObj kv)])"
      and norefresh: "map_of kv ''refresh_token'' = None"
  proof -
    obtain creds where creds: "loads rt cj = Inr creds"
      and rf: "refresh_access_token w creds = refresh_access_token w (JObj kv)"
      using shape nested [of "[(''installed'', JObj kv)]"] nested [of "[(''web'', JObj kv)]"]
      by auto
    have none: "refresh_access_token w creds = (Inr JNull, [])"
      using rf missing [of "''refresh_token''"] norefresh by simp
    from handler_event_found [OF called gresp found cj creds] obtain cal gn where
      hb: "handler_body rt w event =
       (case add_to_calendar rt w creds cal (JObj (AList.update ''group_context'' gn ekv)) of
          (res, t) \<Rightarrow> (res, secret_calls w @ GeminiPost req (Inr gresp) # t))"
      by blast
    show ?thesis
      using hb none by (simp add: add_to_calendar_def handler_of_body)
  qed
  show ?thesis
    using nested missing present handler by (auto split: sum.splits)
qed

theorem token_refresh_outcomes_witness:
  \<open>refresh_access_token sample_world
       (JObj [(''installed'', JObj [(''client_id'', JStr ''id''), (''client_secret'', JStr ''cs''),
                                    (''refresh_token'', JStr ''rt'')])]) =
     (Inr (JStr ''ya29''),
      [TokenPost \<lparr>client_id = JStr ''id'', client_secret = JStr ''cs'', refresh_token = JStr ''rt'',
                   grant_type = ''refresh_token''\<rparr>
         (Inr \<lparr>raise_for_status = None,
               body_json = Inr (JObj [(''access_token'', JStr ''ya29''), (''expires_in'', JInt 3599)])\<rparr>)])
   \<and> refresh_access_token sample_world
       (JObj [(''web'', JObj [(''client_id'', JStr ''id''), (''client_secret'', JStr ''cs'')])]) =
     (Inr JNull, [])
   \<and> lambda_handler sample_runtime
        (sample_world\<lparr>s3_get_object := \<lambda>b k.
           if k = S3_GOOGLE_CREDS_FILE then Inr creds_no_refresh_text
           else s3_get_object sample_world b k\<rparr>) sample_event =
       (\<lparr>statusCode = 500, body = ''"Failed to refresh Google access token."''\<rparr>,
        [S3Get ''gemini_api_key.txt'' (Inr (''key-1'' @ nl)),
         S3Get ''google_creds.json'' (Inr creds_no_refresh_text),
         S3Get ''calendar_id.txt'' (Inr ''primary''),
         GeminiPost \<lparr>api_key = ''key-1'',
             prompt = build_prompt sample_runtime ''2025-11-04'' (JStr ''Pickup game Friday at 6'')\<rparr>
           (Inr (gemini_answer sample_model_text))])\<close>
  using token_refresh_outcomes [where
        kv = "[(''client_id'', JStr ''id''), (''client_secret'', JStr ''cs''),
               (''refresh_token'', JStr ''rt'')]"
      and outer = "[(''installed'', JObj [(''client_id'', JStr ''id''),
               (''client_secret'', JStr ''cs''), (''refresh_token'', JStr ''rt'')])]"
      and w = sample_world and cid = "JStr ''id''" and csecret = "JStr ''cs''"
      and rtoken = "JStr ''rt''"
      and q = "\<lparr>client_id = JStr ''id'', client_secret = JStr ''cs'',
               refresh_token = JStr ''rt'', grant_type = ''refresh_token''\<rparr>"
      and resp = "\<lparr>raise_for_status = None,
               body_json = Inr (JObj [(''access_token'', JStr ''ya29''), (''expires_in'', JInt 3599)])\<rparr>"
      and answer = "[(''access_token'', JStr ''ya29''), (''expires_in'', JInt 3599)]"
      and token = "JStr ''ya29''"]
    token_refresh_outcomes [where
        kv = "[(''client_id'', JStr ''id''), (''client_secret'', JStr ''cs'')]"
      and outer = "[(''web'', JObj [(''client_id'', JStr ''id''), (''client_secret'', JStr ''cs'')])]"
      and field = "''refresh_token''"
      and w = "sample_world\<lparr>s3_get_object := \<lambda>b k.
           if k = S3_GOOGLE_CREDS_FILE then Inr creds_no_refresh_text
           else s3_get_object sample_world b k\<rparr>"
      and rt = sample_runtime and event = sample_event
      and req = "\<lparr>api_key = ''key-1'',
             prompt = build_prompt sample_runtime ''2025-11-04'' (JStr ''Pickup game Friday at 6'')\<rparr>"
      and gresp = "gemini_answer sample_model_text"
      and ekv = "[(''event_found'', JBool True), (''title'', JStr ''Pickup game''),
          (''date'', JStr ''2025-11-07''), (''time'', JStr ''18:00''), (''location'', JStr ''Field 2''),
          (''description'', JStr ''Weekly game'')]"
      and found = "JBool True" and cj = creds_no_refresh_text]
  by (simp add: handler_defs sample_defs strip_defs Let_def)

lemma token_not_calendar: "is_token_post c \<Longrightarrow> \<not> is_calendar_post c"
  by (cases c) simp_all

lemma event_times_update:
  "event_times rt (JObj (AList.update ''group_context'' gn ekv)) = event_times rt (JObj ekv)"
  by (simp add: event_times_def update_conv')

lemma create_missing_key:
  assumes times: "event_times rt (JObj ekv) = Some (start_dt, end_dt)"
    and missing: "find (\<lambda>k. map_of ekv k = None) [''title'', ''location'', ''description''] = Some k"
  shows "create_google_event rt w tok cal (JObj (AList.update ''group_context'' gn ekv)) =
           (Inl (KeyError k), [])"
proof -
  have t: "event_times rt (JObj (AList.update ''group_context'' gn ekv)) = Some (start_dt, end_dt)"
    using times by (simp add: event_times_update)
  show ?thesis
    using missing
    by (auto simp: create_google_event_def t update_conv' split: if_splits option.splits)
qed

text \<open>
  C10, as the code has it. The date and time are read first, inside a \<^verbatim>\<open>try\<close> that turns
  every failure into an error record; the keys \<^verbatim>\<open>title\<close>, \<^verbatim>\<open>location\<close> and
  \<^verbatim>\<open>description\<close> are read after it. So when the extractor found an event, the token
  refresh gave a token and the date and time parse, a record without one of the three keys
  makes \<open>create_google_event\<close> raise \<^verbatim>\<open>KeyError\<close> for the first missing key before any
  calendar call, and the handler answers 500 with \<^verbatim>\<open>Unexpected Error: \<close> and the quoted key.
\<close>

theorem missing_event_key_is_500:
  assumes called: "GeminiPost req (Inr resp) \<in> set (snd (lambda_handler rt w event))"
    and resp: "raise_for_status resp = None" "parse_gemini_response rt resp = Inr (JObj ekv)"
    and found: "map_of ekv ''event_found'' = Some f" "truthy f"
    and creds: "fst (get_secret w S3_GOOGLE_CREDS_FILE) = Some cj" "loads rt cj = Inr creds"
    and token: "refresh_access_token w creds = (Inr tok, token_calls)" "truthy tok"
    and times: "event_times rt (JObj ekv) = Some (start_dt, end_dt)"
    and missing: "find (\<lambda>k. map_of ekv k = None) [''title'', ''location'', ''description''] = Some k"
  shows "create_google_event rt w tok cal (JObj (AList.update ''group_context'' gn ekv)) =
           (Inl (KeyError k), [])
       \<and> lambda_handler rt w event =
           (\<lparr>statusCode = 500,
              body = dumps rt (JStr (''Unexpected Error: '' @ [CHR 0x27] @ k @ [CHR 0x27]))\<rparr>,
            secret_calls w @ GeminiPost req (Inr resp) # token_calls)
       \<and> filter is_calendar_post (snd (lambda_handler rt w event)) = []"
proof -
  note raise = create_missing_key [OF times missing]
  from handler_event_found [OF called resp found creds] obtain cal' gn' where
    hb: "handler_body rt w event =
       (case add_to_calendar rt w creds cal' (JObj (AList.update ''group_context'' gn' ekv)) of
          (res, t) \<Rightarrow> (res, secret_calls w @ GeminiPost req (Inr resp) # t))"
    by blast
  have add: "add_to_calendar rt w creds cal' (JObj (AList.update ''group_context'' gn' ekv)) =
      (Inl (KeyError k), token_calls)"
    using token raise [of w tok cal' gn'] by (simp add: add_to_calendar_def)
  have h: "lambda_handler rt w event =
           (\<lparr>statusCode = 500,
              body = dumps rt (JStr (''Unexpected Error: '' @ [CHR 0x27] @ k @ [CHR 0x27]))\<rparr>,
            secret_calls w @ GeminiPost req (Inr resp) # token_calls)"
    using hb add by (simp add: lambda_handler_def)
  have "\<forall>c \<in> set token_calls. is_token_post c"
    using refresh_trace_token [of _ w creds] token by simp
  then have "filter is_calendar_post token_calls = []"
    by (auto simp: filter_empty_conv dest: token_not_calendar)
  then have "filter is_calendar_post (snd (lambda_handler rt w event)) = []"
    using h by (simp add: secret_calls_def)
  then show ?thesis using raise h by simp
qed

theorem missing_event_key_is_500_witness:
  \<open>parse_gemini_response sample_runtime (gemini_answer untitled_text) =
     Inr (JObj [(''event_found'', JBool True), (''date'', JStr ''2025-12-31''), (''time'', JStr ''23:30'')])
   \<and> event_times sample_runtime
       (JObj [(''event_found'', JBool True), (''date'', JStr ''2025-12-31''), (''time'', JStr ''23:30'')]) =
     Some (\<lparr>year = 2025, month = 12, day = 31, hour = 23, minute = 30, second = 0\<rparr>,
           \<lparr>year = 2026, month = 1, day = 1, hour = 0, minute = 30, second = 0\<rparr>)
   \<and> find (\<lambda>k. map_of [(''event_found'', JBool True), (''date'', JStr ''2025-12-31''),
                         (''time'', JStr ''23:30'')] k = None)
        [''title'', ''location'', ''description''] = Some ''title''
   \<and> lambda_handler sample_runtime
        (sample_world\<lparr>gemini_post := \<lambda>q. Inr (gemini_answer untitled_text)\<rparr>) sample_event =
       (\<lparr>statusCode = 500, body = ''"Unexpected Error: '' @ [CHR 0x27] @ ''title'' @ [CHR 0x27] @ ''"''\<rparr>,
        secret_calls sample_world
        @ [GeminiPost \<lparr>api_key = ''key-1'',
             prompt = build_prompt sample_runtime ''2025-11-04'' (JStr ''Pickup game Friday at 6'')\<rparr>
           (Inr (gemini_answer untitled_text)),
           TokenPost \<lparr>client_id = JStr ''id'', client_secret = JStr ''cs'', refresh_token = JStr ''rt'',
                   grant_type = ''refresh_token''\<rparr>
         (Inr \<lparr>raise_for_status = None,
               body_json = Inr (JObj [(''access_token'', JStr ''ya29''), (''expires_in'', JInt 3599)])\<rparr>)])\<close>
  using missing_event_key_is_500 [where
        req = "\<lparr>api_key = ''key-1'',
             prompt = build_prompt sample_runtime ''2025-11-04'' (JStr ''Pickup game Friday at 6'')\<rparr>"
      and resp = "gemini_answer untitled_text" and rt = sample_runtime
      and w = "sample_world\<lparr>gemini_post := \<lambda>q. Inr (gemini_answer untitled_text)\<rparr>"
      and event = sample_event
      and ekv = "[(''event_found'', JBool True), (''date'', JStr ''2025-12-31''), (''time'', JStr ''23:30'')]"
      and f = "JBool True" and cj = sample_creds_text and creds = sample_creds
      and tok = "JStr ''ya29''"
      and token_calls = "[TokenPost \<lparr>client_id = JStr ''id'', client_secret = JStr ''cs'',
                   refresh_token = JStr ''rt'', grant_type = ''refresh_token''\<rparr>
         (Inr \<lparr>raise_for_status = None,
               body_json = Inr (JObj [(''access_token'', JStr ''ya29''), (''expires_in'', JInt 3599)])\<rparr>)]"
      and start_dt = "\<lparr>year = 2025, month = 12, day = 31, hour = 23, minute = 30, second = 0\<rparr>"
      and end_dt = "\<lparr>year = 2026, month = 1, day = 1, hour = 0, minute = 30, second = 0\<rparr>"
      and k = "''title''"]
  by (simp add: handler_defs sample_defs strip_defs time_defs Let_def)

theorem missing_event_key_counterexample:
  \<open>fst (lambda_handler sample_runtime
          (sample_world\<lparr>gemini_post := \<lambda>q. Inr (gemini_answer bare_text)\<rparr>) sample_event) =
     \<lparr>statusCode = 200, body = ''{"status": "Event created.", "link": null}''\<rparr>
   \<and> fst (extract_event_data sample_runtime
          (sample_world\<lparr>gemini_post := \<lambda>q. Inr (gemini_answer bare_text)\<rparr>)
          ''key-1'' (JStr ''Pickup game Friday at 6'')) = Inr (JObj [(''event_found'', JBool True)])
   \<and> create_google_event sample_runtime sample_world (JStr ''ya29'') ''primary''
        (JObj [(''event_found'', JBool True), (''group_context'', JStr ''FC Test'')]) =
       (Inr (JObj [(''status'', JStr ''error''), (''message'', JStr ''Invalid date/time'')]), [])\<close>
  by (simp add: handler_defs sample_defs strip_defs time_defs Let_def)

section \<open>The event body\<close>

text \<open>One hour later on the calendar, across the end of a day, a month or a year.\<close>

lemma days_before_next_month:
  "1 \<le> m \<Longrightarrow> days_before_month y (m + 1) = days_before_month y m + days_in_month y m"
  by (cases m) simp_all

lemma days_before_month_12: "days_before_month y 12 = (if is_leap y then 335 else 334)"
  by (simp add: eval_nat_numeral days_in_month_def)

lemma mod_0_trans: "(k::nat) dvd n \<Longrightarrow> m mod n = 0 \<Longrightarrow> m mod k = 0"
  by (meson dvd_trans mod_eq_0_iff_dvd)

lemma days_before_next_year:
  assumes "1 \<le> y"
  shows "days_before_year (y + 1) = days_before_year y + (if is_leap y then 366 else 365)"
proof -
  obtain z where z: "y = Suc z" using assms by (cases y) auto
  define p4 where "p4 \<longleftrightarrow> y mod 4 = 0"
  define p100 where "p100 \<longleftrightarrow> y mod 100 = 0"
  define p400 where "p400 \<longleftrightarrow> y mod 400 = 0"
  define A where "A = z div 4"
  define B where "B = z div 100"
  define C where "C = z div 400"
  have a: "y div 4 = A + (if p4 then 1 else 0)"
    by (simp add: div_Suc z p4_def A_def)
  have b: "y div 100 = B + (if p100 then 1 else 0)"
    by (simp add: div_Suc z p100_def B_def)
  have c: "y div 400 = C + (if p400 then 1 else 0)"
    by (simp add: div_Suc z p400_def C_def)
  have d: "B \<le> A" unfolding A_def B_def by (rule div_le_mono2) simp_all
  have e: "p100 \<longrightarrow> p4" unfolding p100_def p4_def
    using mod_0_trans [of 4 100 y] by simp
  have f: "p400 \<longrightarrow> p100" unfolding p100_def p400_def
    using mod_0_trans [of 100 400 y] by simp
  have leap: "is_leap y \<longleftrightarrow> p4 \<and> (\<not> p100 \<or> p400)"
    by (simp add: is_leap_def p4_def p100_def p400_def)
  have L: "days_before_year (y + 1) = y * 365 + y div 4 - y div 100 + y div 400"
    by (simp add: days_before_year_def)
  have R: "days_before_year y = z * 365 + A - B + C"
    by (simp add: days_before_year_def z A_def B_def C_def)
  have S: "y * 365 = z * 365 + 365" by (simp add: z)
  show ?thesis
    unfolding L R S a b c leap using d e f by (cases p4; cases p100; cases p400) simp_all
qed

lemma plus_one_hour_seconds:
  assumes v: "valid_datetime dt" and p: "plus_one_hour dt = Some dt'"
  shows "total_seconds dt' = total_seconds dt + 3600 \<and> valid_datetime dt'"
proof (cases "hour dt < 23")
  case True
  then have "dt' = dt\<lparr>hour := hour dt + 1\<rparr>" using p by (simp add: plus_one_hour_def)
  then show ?thesis using v True
    by (simp add: total_seconds_def toordinal_def valid_datetime_def)
next
  case False
  then have h: "hour dt = 23" using v by (simp add: valid_datetime_def)
  show ?thesis
  proof (cases "day dt < days_in_month (year dt) (month dt)")
    case True
    then have "dt' = dt\<lparr>day := day dt + 1, hour := 0\<rparr>" using p h by (simp add: plus_one_hour_def)
    then show ?thesis using v h True
      by (simp add: total_seconds_def toordinal_def valid_datetime_def)
  next
    case False
    then have d: "day dt = days_in_month (year dt) (month dt)"
      using v by (simp add: valid_datetime_def)
    show ?thesis
    proof (cases "month dt < 12")
      case True
      then have dt': "dt' = dt\<lparr>month := month dt + 1, day := 1, hour := 0\<rparr>"
        using p h d by (simp add: plus_one_hour_def)
      have "1 \<le> month dt" using v by (simp add: valid_datetime_def)
      then have "days_before_month (year dt) (month dt + 1) =
          days_before_month (year dt) (month dt) + days_in_month (year dt) (month dt)"
        by (rule days_before_next_month)
      moreover have "1 \<le> days_in_month (year dt) (month dt + 1)"
        by (simp add: days_in_month_def)
      ultimately show ?thesis using v h d dt' True
        by (simp add: total_seconds_def toordinal_def valid_datetime_def)
    next
      case False
      then have m: "month dt = 12" using v by (simp add: valid_datetime_def)
      have lt: "year dt < 9999" using p h d m by (simp add: plus_one_hour_def split: if_splits)
      then have dt': "dt' = dt\<lparr>year := year dt + 1, month := 1, day := 1, hour := 0\<rparr>"
        using p h d m by (simp add: plus_one_hour_def)
      have y1: "1 \<le> year dt" using v by (simp add: valid_datetime_def)
      have d31: "day dt = 31" using d m by (simp add: days_in_month_def)
      have "toordinal dt' = toordinal dt + 1"
        using days_before_next_year [OF y1] days_before_month_12 [of "year dt"] dt' m d31
        by (simp add: toordinal_def)
      then show ?thesis using v h dt' lt
        by (simp add: total_seconds_def valid_datetime_def days_in_month_def)
    qed
  qed
qed

lemma strptime_valid: "strptime s = Some dt \<Longrightarrow> valid_datetime dt"
  by (auto simp: strptime_def split: list.splits if_splits)

lemma event_times_Some:
  assumes "event_times rt ev = Some (start_dt, end_dt)"
  shows "\<exists>d t. subscript ev ''date'' = Inr d \<and> subscript ev ''time'' = Inr t
     \<and> strptime (fmt rt d @ ''T'' @ fmt rt t @ '':00'') = Some start_dt
     \<and> plus_one_hour start_dt = Some end_dt"
proof -
  obtain d where d: "subscript ev ''date'' = Inr d"
    using assms by (cases "subscript ev ''date''") (simp_all add: event_times_def ok_def)
  obtain t where t: "subscript ev ''time'' = Inr t"
    using assms d by (cases "subscript ev ''time''") (simp_all add: event_times_def ok_def)
  obtain s where s: "strptime (fmt rt d @ ''T'' @ fmt rt t @ '':00'') = Some s"
    using assms d t
    by (cases "strptime (fmt rt d @ ''T'' @ fmt rt t @ '':00'')")
       (simp_all add: event_times_def ok_def)
  have "plus_one_hour s = Some end_dt \<and> s = start_dt"
    using assms d t s
    by (cases "plus_one_hour s") (simp_all add: event_times_def ok_def)
  then show ?thesis using d t s by blast
qed

lemma create_posts:
  assumes "CalendarPost req r \<in> set (snd (create_google_event rt w tok cal ev))"
  shows "\<exists>start_dt end_dt title location grp descr.
           event_times rt ev = Some (start_dt, end_dt)
         \<and> subscript ev ''title'' = Inr title \<and> subscript ev ''location'' = Inr location
         \<and> subscript ev ''group_context'' = Inr grp \<and> subscript ev ''description'' = Inr descr
         \<and> event_body req = JObj
             [(''summary'', title),
              (''location'', location),
              (''description'', JStr (''Group: '' @ fmt rt grp @ nl @ ''Details: '' @ fmt rt descr)),
              (''start'', JObj [(''dateTime'', JStr (isoformat start_dt)), (''timeZone'', JStr TIMEZONE)]),
              (''end'', JObj [(''dateTime'', JStr (isoformat end_dt)), (''timeZone'', JStr TIMEZONE)])]"
proof -
  obtain start_dt end_dt where times: "event_times rt ev = Some (start_dt, end_dt)"
    using assms by (cases "event_times rt ev") (auto simp: create_google_event_def)
  obtain title where a: "subscript ev ''title'' = Inr title"
    using assms times by (cases "subscript ev ''title''") (simp_all add: create_google_event_def)
  obtain location where b: "subscript ev ''location'' = Inr location"
    using assms times a
    by (cases "subscript ev ''location''") (simp_all add: create_google_event_def)
  obtain grp where c: "subscript ev ''group_context'' = Inr grp"
    using assms times a b
    by (cases "subscript ev ''group_context''") (simp_all add: create_google_event_def)
  obtain descr where d: "subscript ev ''description'' = Inr descr"
    using assms times a b c
    by (cases "subscript ev ''description''") (simp_all add: create_google_event_def)
  have "event_body req = JObj
             [(''summary'', title),
              (''location'', location),
              (''description'', JStr (''Group: '' @ fmt rt grp @ nl @ ''Details: '' @ fmt rt descr)),
              (''start'', JObj [(''dateTime'', JStr (isoformat start_dt)), (''timeZone'', JStr TIMEZONE)]),
              (''end'', JObj [(''dateTime'', JStr (isoformat end_dt)), (''timeZone'', JStr TIMEZONE)])]"
    using assms times a b c d by (auto simp: create_google_event_def Let_def)
  then show ?thesis using times a b c d by blast
qed

text \<open>
  C8. Whenever \<open>create_google_event\<close> posts an event, the start is what \<open>strptime\<close> reads
  from the record's date, a \<^verbatim>\<open>T\<close>, its time and \<^verbatim>\<open>:00\<close>; the end is a valid date-time
  exactly 3600 seconds later on the calendar; and the body posted has \<^verbatim>\<open>summary\<close> the
  title, \<^verbatim>\<open>location\<close> the location, \<^verbatim>\<open>description\<close> the text \<^verbatim>\<open>Group: \<close>, the group
  context, a newline, \<^verbatim>\<open>Details: \<close> and the extracted description, and \<^verbatim>\<open>start\<close> and
  \<^verbatim>\<open>end\<close> holding the ISO texts of the two times, both with the time zone
  \<^verbatim>\<open>America/New_York\<close> of the configuration.
\<close>

theorem event_body_is_one_hour:
  assumes "CalendarPost req r \<in> set (snd (create_google_event rt w tok cal ev))"
  shows "\<exists>d t start_dt end_dt title location grp descr.
           subscript ev ''date'' = Inr d \<and> subscript ev ''time'' = Inr t
         \<and> strptime (fmt rt d @ ''T'' @ fmt rt t @ '':00'') = Some start_dt
         \<and> plus_one_hour start_dt = Some end_dt
         \<and> total_seconds end_dt = total_seconds start_dt + 3600
         \<and> valid_datetime end_dt
         \<and> subscript ev ''title'' = Inr title \<and> subscript ev ''location'' = Inr location
         \<and> subscript ev ''group_context'' = Inr grp \<and> subscript ev ''description'' = Inr descr
         \<and> event_body req = JObj
             [(''summary'', title),
              (''location'', location),
              (''description'', JStr (''Group: '' @ fmt rt grp @ nl @ ''Details: '' @ fmt rt descr)),
              (''start'', JObj [(''dateTime'', JStr (isoformat start_dt)),
                                (''timeZone'', JStr ''America/New_York'')]),
              (''end'', JObj [(''dateTime'', JStr (isoformat end_dt)),
                              (''timeZone'', JStr ''America/New_York'')])]"
proof -
  from create_posts [OF assms] obtain start_dt end_dt title location grp descr where
    times: "event_times rt ev = Some (start_dt, end_dt)"
    and keys: "subscript ev ''title'' = Inr title" "subscript ev ''location'' = Inr location"
      "subscript ev ''group_context'' = Inr grp" "subscript ev ''description'' = Inr descr"
    and body: "event_body req = JObj
             [(''summary'', title),
              (''location'', location),
              (''description'', JStr (''Group: '' @ fmt rt grp @ nl @ ''Details: '' @ fmt rt descr)),
              (''start'', JObj [(''dateTime'', JStr (isoformat start_dt)), (''timeZone'', JStr TIMEZONE)]),
              (''end'', JObj [(''dateTime'', JStr (isoformat end_dt)), (''timeZone'', JStr TIMEZONE)])]"
    by blast
  from event_times_Some [OF times] obtain d t where
    dt: "subscript ev ''date'' = Inr d" "subscript ev ''time'' = Inr t"
    and s: "strptime (fmt rt d @ ''T'' @ fmt rt t @ '':00'') = Some start_dt"
    and e: "plus_one_hour start_dt = Some end_dt"
    by blast
  note hour = plus_one_hour_seconds [OF strptime_valid [OF s] e]
  have tz: "TIMEZONE = ''America/New_York''" by (simp add: TIMEZONE_def)
  show ?thesis
    apply (rule exI [of _ d], rule exI [of _ t], rule exI [of _ start_dt], rule exI [of _ end_dt])
    apply (rule exI [of _ title], rule exI [of _ location], rule exI [of _ grp], rule exI [of _ descr])
    using dt s e hour keys body unfolding tz by simp
qed

theorem event_body_is_one_hour_witness:
  \<open>snd (create_google_event sample_runtime sample_world (JStr ''ya29'') ''primary''
          (JObj [(''event_found'', JBool True), (''title'', JStr ''Leap night''),
                 (''date'', JStr ''2024-02-28''), (''time'', JStr ''23:30''),
                 (''location'', JStr ''Gym''), (''description'', JStr ''Late game''),
                 (''group_context'', JStr ''FC Test'')])) =
     [CalendarPost
        \<lparr>authorization = ''Bearer ya29'',
         url = ''https://www.googleapis.com/calendar/v3/calendars/primary/events'',
         event_body = JObj
           [(''summary'', JStr ''Leap night''),
            (''location'', JStr ''Gym''),
            (''description'', JStr (''Group: FC Test'' @ nl @ ''Details: Late game'')),
            (''start'', JObj [(''dateTime'', JStr ''2024-02-28T23:30:00''),
                              (''timeZone'', JStr ''America/New_York'')]),
            (''end'', JObj [(''dateTime'', JStr ''2024-02-29T00:30:00''),
                            (''timeZone'', JStr ''America/New_York'')])]\<rparr>
        (Inr \<lparr>raise_for_status = None,
              body_json = Inr (JObj [(''htmlLink'', JStr ''https://calendar.example/e1'')])\<rparr>)]
   \<and> strptime ''2024-02-28T23:30:00'' =
       Some \<lparr>year = 2024, month = 2, day = 28, hour = 23, minute = 30, second = 0\<rparr>
   \<and> plus_one_hour \<lparr>year = 2024, month = 2, day = 28, hour = 23, minute = 30, second = 0\<rparr> =
       Some \<lparr>year = 2024, month = 2, day = 29, hour = 0, minute = 30, second = 0\<rparr>\<close>
  using event_body_is_one_hour [where rt = sample_runtime and w = sample_world
      and tok = "JStr ''ya29''" and cal = "''primary''"
      and ev = "JObj [(''event_found'', JBool True), (''title'', JStr ''Leap night''),
                 (''date'', JStr ''2024-02-28''), (''time'', JStr ''23:30''),
                 (''location'', JStr ''Gym''), (''description'', JStr ''Late game''),
                 (''group_context'', JStr ''FC Test'')]"
      and req = "\<lparr>authorization = ''Bearer ya29'',
         url = ''https://www.googleapis.com/calendar/v3/calendars/primary/events'',
         event_body = JObj
           [(''summary'', JStr ''Leap night''),
            (''location'', JStr ''Gym''),
            (''description'', JStr (''Group: FC Test'' @ nl @ ''Details: Late game'')),
            (''start'', JObj [(''dateTime'', JStr ''2024-02-28T23:30:00''),
                              (''timeZone'', JStr ''America/New_York'')]),
            (''end'', JObj [(''dateTime'', JStr ''2024-02-29T00:30:00''),
                            (''timeZone'', JStr ''America/New_York'')])]\<rparr>"
      and r = "Inr \<lparr>raise_for_status = None,
              body_json = Inr (JObj [(''htmlLink'', JStr ''https://calendar.example/e1'')])\<rparr>"]
  by (simp add: handler_defs sample_defs time_defs Let_def)

section \<open>Determinism\<close>

lemma split_replies:
  assumes "length a = length a'" and "map f (a @ b) = map f (a' @ b')"
  shows "map f a = map f a' \<and> map f b = map f b'"
  using assms by simp

lemma get_secret_reply:
  "s3_get_object w1 S3_BUCKET_NAME k = s3_get_object w2 S3_BUCKET_NAME k \<Longrightarrow>
   fst (get_secret w1 k) = fst (get_secret w2 k)"
  by (simp add: get_secret_def Let_def)

lemma extract_length:
  "length (snd (extract_event_data rt w1 key raw)) = length (snd (extract_event_data rt w2 key raw))"
  by (simp add: extract_trace)

lemma extract_replies:
  assumes "map reply_of (snd (extract_event_data rt w1 key raw)) =
           map reply_of (snd (extract_event_data rt w2 key raw))"
  shows "fst (extract_event_data rt w1 key raw) = fst (extract_event_data rt w2 key raw)"
proof (cases "key = []")
  case True
  then show ?thesis by (simp add: extract_event_data_def)
next
  case False
  define r1 where "r1 = gemini_post w1 \<lparr>api_key = key, prompt = build_prompt rt (today w1) raw\<rparr>"
  define r2 where "r2 = gemini_post w2 \<lparr>api_key = key, prompt = build_prompt rt (today w2) raw\<rparr>"
  have "r1 = r2" using assms False by (simp add: extract_trace r1_def r2_def)
  then show ?thesis
    using False by (simp add: extract_event_data_def Let_def r1_def r2_def)
qed

text \<open>
  A function that, whatever the world, either returns without a call or makes one call
  with a fixed request and goes on from the answer alone.
\<close>

lemma one_call:
  assumes form: "\<And>w. f w = (case plan of
                      Inl res \<Rightarrow> (res, [])
                    | Inr (q, k) \<Rightarrow> (k (post w q), [mk q (post w q)]))"
    and mk: "\<And>q r. reply_of (mk q r) = HttpReply r"
  shows "length (snd (f w1)) = length (snd (f w2))
       \<and> (map reply_of (snd (f w1)) = map reply_of (snd (f w2)) \<longrightarrow> fst (f w1) = fst (f w2))"
proof (cases plan)
  case (Inl res)
  then show ?thesis by (simp add: form)
next
  case (Inr p)
  obtain q k where p: "p = (q, k)" by (cases p)
  show ?thesis by (simp add: form Inr p mk)
qed

lemma request_token_form:
  "request_token w c =
     (case (case dict_get c ''client_id'' JNull of Inl e \<Rightarrow> Inl (Inl e) | Inr cid \<Rightarrow>
           (case dict_get c ''client_secret'' JNull of Inl e \<Rightarrow> Inl (Inl e) | Inr csecret \<Rightarrow>
           (case dict_get c ''refresh_token'' JNull of Inl e \<Rightarrow> Inl (Inl e) | Inr rtoken \<Rightarrow>
              if \<not> (truthy cid \<and> truthy csecret \<and> truthy rtoken) then Inl (Inr JNull)
              else Inr (\<lparr>client_id = cid, client_secret = csecret, refresh_token = rtoken,
                          grant_type = ''refresh_token''\<rparr>,
                        \<lambda>r. case r of
                               Inl e \<Rightarrow> Inl e
                             | Inr resp \<Rightarrow>
                                 (case raise_for_status resp of
                                    Some e \<Rightarrow> Inl e
                                  | None \<Rightarrow>
                                      (case body_json resp of
                                         Inl e \<Rightarrow> Inl e
                                       | Inr token_response \<Rightarrow>
                                           (case dict_get token_response ''expires_in'' JNull of
                                              Inl e \<Rightarrow> Inl e
                                            | Inr expires \<Rightarrow>
                                                subscript token_response ''access_token''))))))) of
        Inl res \<Rightarrow> (res, [])
      | Inr (q, k) \<Rightarrow> (k (token_post w q), [TokenPost q (token_post w q)]))"
  by (simp add: request_token_def Let_def split: sum.splits)

lemma request_token_determined:
  "length (snd (request_token w1 c)) = length (snd (request_token w2 c))
   \<and> (map reply_of (snd (request_token w1 c)) = map reply_of (snd (request_token w2 c))
        \<longrightarrow> fst (request_token w1 c) = fst (request_token w2 c))"
  by (rule one_call [where f = "\<lambda>w. request_token w c" and post = token_post and mk = TokenPost,
        OF request_token_form]) simp

lemma refresh_determined:
  "length (snd (refresh_access_token w1 c)) = length (snd (refresh_access_token w2 c))
   \<and> (map reply_of (snd (refresh_access_token w1 c)) = map reply_of (snd (refresh_access_token w2 c))
        \<longrightarrow> fst (refresh_access_token w1 c) = fst (refresh_access_token w2 c))"
proof (cases "unwrap_creds c")
  case (Inl e)
  then show ?thesis by (simp add: refresh_access_token_def)
next
  case (Inr c')
  then show ?thesis
    using request_token_determined [of w1 c' w2] by (simp add: refresh_access_token_def)
qed

lemma create_form:
  "create_google_event rt w tok cal ev =
     (case (case event_times rt ev of
              None \<Rightarrow> Inl (Inr invalid_date_time)
            | Some (start_dt, end_dt) \<Rightarrow>
           (case subscript ev ''title'' of Inl e \<Rightarrow> Inl (Inl e) | Inr title \<Rightarrow>
           (case subscript ev ''location'' of Inl e \<Rightarrow> Inl (Inl e) | Inr location \<Rightarrow>
           (case subscript ev ''group_context'' of Inl e \<Rightarrow> Inl (Inl e) | Inr grp \<Rightarrow>
           (case subscript ev ''description'' of Inl e \<Rightarrow> Inl (Inl e) | Inr descr \<Rightarrow>
              Inr (\<lparr>authorization = ''Bearer '' @ fmt rt tok,
                     url = ''https://www.googleapis.com/calendar/v3/calendars/'' @ cal @ ''/events'',
                     event_body = JObj
                       [(''summary'', title),
                        (''location'', location),
                        (''description'',
                           JStr (''Group: '' @ fmt rt grp @ nl @ ''Details: '' @ fmt rt descr)),
                        (''start'', JObj [(''dateTime'', JStr (isoformat start_dt)),
                                          (''timeZone'', JStr TIMEZONE)]),
                        (''end'', JObj [(''dateTime'', JStr (isoformat end_dt)),
                                        (''timeZone'', JStr TIMEZONE)])]\<rparr>,
                   \<lambda>r. case r of
                          Inl e \<Rightarrow> Inl e
                        | Inr resp \<Rightarrow>
                            (case raise_for_status resp of
                               Some e \<Rightarrow> Inl e
                             | None \<Rightarrow> body_json resp))))))) of
        Inl res \<Rightarrow> (res, [])
      | Inr (q, k) \<Rightarrow> (k (calendar_post w q), [CalendarPost q (calendar_post w q)]))"
  by (simp add: create_google_event_def Let_def split: option.splits sum.splits)

lemma create_determined:
  "length (snd (create_google_event rt w1 tok cal ev)) =
     length (snd (create_google_event rt w2 tok cal ev))
   \<and> (map reply_of (snd (create_google_event rt w1 tok cal ev)) =
        map reply_of (snd (create_google_event rt w2 tok cal ev))
        \<longrightarrow> fst (create_google_event rt w1 tok cal ev) = fst (create_google_event rt w2 tok cal ev))"
  by (rule one_call [where f = "\<lambda>w. create_google_event rt w tok cal ev" and post = calendar_post
        and mk = CalendarPost, OF create_form]) simp

lemma add_to_calendar_fst:
  "fst (add_to_calendar rt w creds cal ev) =
     (case fst (refresh_access_token w creds) of
        Inl e \<Rightarrow> Inl e
      | Inr tok \<Rightarrow>
          if \<not> truthy tok
          then Inr \<lparr>statusCode = 500,
                    body = dumps rt (JStr ''Failed to refresh Google access token.'')\<rparr>
          else (case fst (create_google_event rt w tok cal ev) of
                  Inl e \<Rightarrow> Inl e
                | Inr calendar_response \<Rightarrow>
                    (case dict_get calendar_response ''htmlLink'' JNull of
                       Inl e \<Rightarrow> Inl e
                     | Inr link \<Rightarrow>
                         Inr \<lparr>statusCode = 200,
                              body = dumps rt (JObj [(''status'', JStr ''Event created.''),
                                                     (''link'', link)])\<rparr>)))"
  by (simp add: add_to_calendar_def split: prod.splits sum.splits)

lemma add_to_calendar_snd:
  "snd (add_to_calendar rt w creds cal ev) =
     snd (refresh_access_token w creds)
     @ (case fst (refresh_access_token w creds) of
          Inl e \<Rightarrow> []
        | Inr tok \<Rightarrow> if truthy tok then snd (create_google_event rt w tok cal ev) else [])"
  by (simp add: add_to_calendar_def split: prod.splits sum.splits)

lemma add_to_calendar_determined:
  assumes eq: "map reply_of (snd (add_to_calendar rt w1 creds cal ev)) =
               map reply_of (snd (add_to_calendar rt w2 creds cal ev))"
  shows "fst (add_to_calendar rt w1 creds cal ev) = fst (add_to_calendar rt w2 creds cal ev)"
proof -
  note rd = refresh_determined [of w1 creds w2]
  from rd have len: "length (snd (refresh_access_token w1 creds)) =
      length (snd (refresh_access_token w2 creds))" by (rule conjunct1)
  from split_replies [OF len] eq
  have t: "map reply_of (snd (refresh_access_token w1 creds)) =
           map reply_of (snd (refresh_access_token w2 creds))"
    and rest: "map reply_of (case fst (refresh_access_token w1 creds) of
          Inl e \<Rightarrow> []
        | Inr tok \<Rightarrow> if truthy tok then snd (create_google_event rt w1 tok cal ev) else []) =
       map reply_of (case fst (refresh_access_token w2 creds) of
          Inl e \<Rightarrow> []
        | Inr tok \<Rightarrow> if truthy tok then snd (create_google_event rt w2 tok cal ev) else [])"
    unfolding add_to_calendar_snd by blast+
  have r: "fst (refresh_access_token w1 creds) = fst (refresh_access_token w2 creds)"
    using rd t by blast
  show ?thesis
  proof (cases "fst (refresh_access_token w2 creds)")
    case (Inl e)
    then show ?thesis unfolding add_to_calendar_fst r by simp
  next
    case (Inr tok)
    show ?thesis
    proof (cases "truthy tok")
      case False
      then show ?thesis unfolding add_to_calendar_fst r Inr by simp
    next
      case True
      have "map reply_of (snd (create_google_event rt w1 tok cal ev)) =
            map reply_of (snd (create_google_event rt w2 tok cal ev))"
        using rest True unfolding r Inr by simp
      then have c: "fst (create_google_event rt w1 tok cal ev) =
                 fst (create_google_event rt w2 tok cal ev)"
        using create_determined [of rt w1 tok cal ev w2] by blast
      show ?thesis unfolding add_to_calendar_fst r Inr using True c by simp
    qed
  qed
qed

lemma after_extraction_form:
  "after_extraction rt w creds cal gn x =
      (case (case set_item x ''group_context'' gn of Inl e \<Rightarrow> Inl (Inl e) | Inr event_data \<Rightarrow>
            (case dict_get event_data ''title'' JNull of Inl e \<Rightarrow> Inl (Inl e) | Inr title \<Rightarrow>
            (case dict_get event_data ''event_found'' JNull of Inl e \<Rightarrow> Inl (Inl e) | Inr found \<Rightarrow>
               if truthy found then Inr event_data
               else Inl (Inr \<lparr>statusCode = 200,
                   body = dumps rt (JObj [(''status'', JStr ''No event found.'')])\<rparr>)))) of
         Inl res \<Rightarrow> (res, [])
       | Inr event_data \<Rightarrow> add_to_calendar rt w creds cal event_data)"
  by (simp add: after_extraction_def split: sum.splits)

lemma after_extraction_determined:
  assumes "map reply_of (snd (after_extraction rt w1 creds cal gn x)) =
           map reply_of (snd (after_extraction rt w2 creds cal gn x))"
  shows "fst (after_extraction rt w1 creds cal gn x) = fst (after_extraction rt w2 creds cal gn x)"
proof -
  define plan where "plan =
     (case set_item x ''group_context'' gn of Inl e \<Rightarrow> Inl (Inl e) | Inr event_data \<Rightarrow>
            (case dict_get event_data ''title'' JNull of Inl e \<Rightarrow> Inl (Inl e) | Inr title \<Rightarrow>
            (case dict_get event_data ''event_found'' JNull of Inl e \<Rightarrow> Inl (Inl e) | Inr found \<Rightarrow>
               if truthy found then Inr event_data
               else Inl (Inr \<lparr>statusCode = 200,
                   body = dumps rt (JObj [(''status'', JStr ''No event found.'')])\<rparr>))))"
  have form: "after_extraction rt w creds cal gn x =
      (case plan of Inl res \<Rightarrow> (res, [])
       | Inr event_data \<Rightarrow> add_to_calendar rt w creds cal event_data)" for w
    unfolding plan_def by (rule after_extraction_form)
  show ?thesis
  proof (cases plan)
    case (Inl res)
    then show ?thesis by (simp add: form)
  next
    case (Inr event_data)
    then show ?thesis
      using assms add_to_calendar_determined [of rt w1 creds cal event_data w2]
      by (simp add: form)
  qed
qed

lemma process_message_unreached:
  assumes "\<not> (\<exists>rb p s raw gn. subscript ev ''body'' = Inr rb \<and> json_loads rt rb = Inr p
    \<and> dict_get p ''sender_type'' JNull = Inr s \<and> s \<noteq> JStr ''bot''
    \<and> dict_get p ''text'' (JStr []) = Inr raw
    \<and> dict_get p ''group_name'' (JStr ''Unknown Group'') = Inr gn \<and> sliceable raw)"
  shows "process_message rt w1 key creds cal ev = process_message rt w2 key creds cal ev"
proof (cases "subscript ev ''body''")
  case Inl
  then show ?thesis by (simp add: process_message_def)
next
  case rb: (Inr rb)
  show ?thesis
  proof (cases "json_loads rt rb")
    case Inl
    then show ?thesis by (simp add: process_message_def rb)
  next
    case p: (Inr p)
    show ?thesis
    proof (cases "dict_get p ''sender_type'' JNull")
      case Inl
      then show ?thesis by (simp add: process_message_def rb p)
    next
      case s: (Inr s)
      show ?thesis
      proof (cases "s = JStr ''bot''")
        case True
        then show ?thesis by (simp add: process_message_def rb p s)
      next
        case nb: False
        show ?thesis
        proof (cases "dict_get p ''text'' (JStr [])")
          case Inl
          then show ?thesis using nb by (simp add: process_message_def rb p s)
        next
          case raw: (Inr raw)
          show ?thesis
          proof (cases "dict_get p ''group_name'' (JStr ''Unknown Group'')")
            case Inl
            then show ?thesis using nb by (simp add: process_message_def rb p s raw)
          next
            case gn: (Inr gn)
            have "\<not> sliceable raw" using assms rb p s nb raw gn by blast
            then show ?thesis using nb by (simp add: process_message_def rb p s raw gn)
          qed
        qed
      qed
    qed
  qed
qed

lemma process_message_determined:
  assumes eq: "map reply_of (snd (process_message rt w1 key creds cal ev)) =
               map reply_of (snd (process_message rt w2 key creds cal ev))"
  shows "fst (process_message rt w1 key creds cal ev) = fst (process_message rt w2 key creds cal ev)"
proof (cases "\<exists>rb p s raw gn. subscript ev ''body'' = Inr rb \<and> json_loads rt rb = Inr p
    \<and> dict_get p ''sender_type'' JNull = Inr s \<and> s \<noteq> JStr ''bot''
    \<and> dict_get p ''text'' (JStr []) = Inr raw
    \<and> dict_get p ''group_name'' (JStr ''Unknown Group'') = Inr gn \<and> sliceable raw")
  case False
  then show ?thesis using process_message_unreached [of ev rt w1 key creds cal w2] by simp
next
  case True
  then obtain rb p s raw gn where reached:
    "subscript ev ''body'' = Inr rb" "json_loads rt rb = Inr p"
    "dict_get p ''sender_type'' JNull = Inr s" "s \<noteq> JStr ''bot''"
    "dict_get p ''text'' (JStr []) = Inr raw"
    "dict_get p ''group_name'' (JStr ''Unknown Group'') = Inr gn" "sliceable raw"
    by blast
  have pm_fst: "fst (process_message rt w key creds cal ev) =
      (case fst (extract_event_data rt w key raw) of
         Inl e \<Rightarrow> Inl e
       | Inr v \<Rightarrow> fst (after_extraction rt w creds cal gn v))" for w
    unfolding process_message_reached [OF reached]
    by (simp split: prod.splits sum.splits)
  have pm_snd: "snd (process_message rt w key creds cal ev) =
      snd (extract_event_data rt w key raw)
      @ (case fst (extract_event_data rt w key raw) of
           Inl e \<Rightarrow> []
         | Inr v \<Rightarrow> snd (after_extraction rt w creds cal gn v))" for w
    unfolding process_message_reached [OF reached]
    by (simp split: prod.splits sum.splits)
  from split_replies [OF extract_length [of rt w1 key raw w2]] eq
  have t: "map reply_of (snd (extract_event_data rt w1 key raw)) =
           map reply_of (snd (extract_event_data rt w2 key raw))"
    and rest: "map reply_of (case fst (extract_event_data rt w1 key raw) of
           Inl e \<Rightarrow> []
         | Inr v \<Rightarrow> snd (after_extraction rt w1 creds cal gn v)) =
       map reply_of (case fst (extract_event_data rt w2 key raw) of
           Inl e \<Rightarrow> []
         | Inr v \<Rightarrow> snd (after_extraction rt w2 creds cal gn v))"
    unfolding pm_snd by blast+
  have x: "fst (extract_event_data rt w1 key raw) = fst (extract_event_data rt w2 key raw)"
    using t by (rule extract_replies)
  show ?thesis
  proof (cases "fst (extract_event_data rt w2 key raw)")
    case (Inl e)
    then show ?thesis unfolding pm_fst x by simp
  next
    case (Inr v)
    have "map reply_of (snd (after_extraction rt w1 creds cal gn v)) =
          map reply_of (snd (after_extraction rt w2 creds cal gn v))"
      using rest unfolding x Inr by simp
    then have "fst (after_extraction rt w1 creds cal gn v) =
               fst (after_extraction rt w2 creds cal gn v)"
      by (rule after_extraction_determined)
    then show ?thesis unfolding pm_fst x Inr by simp
  qed
qed

lemma secret_calls_replies:
  "map reply_of (secret_calls w) =
     [TextReply (s3_get_object w S3_BUCKET_NAME S3_GEMINI_KEY_FILE),
      TextReply (s3_get_object w S3_BUCKET_NAME S3_GOOGLE_CREDS_FILE),
      TextReply (s3_get_object w S3_BUCKET_NAME S3_CALENDAR_ID_FILE)]"
  by (simp add: secret_calls_def)

lemma handler_body_snd:
  "snd (handler_body rt w ev) =
     secret_calls w
     @ (case (fst (get_secret w S3_GEMINI_KEY_FILE), fst (get_secret w S3_GOOGLE_CREDS_FILE),
              fst (get_secret w S3_CALENDAR_ID_FILE)) of
          (Some key, Some cj, Some cal) \<Rightarrow>
            (case json_loads rt (JStr cj) of
               Inl e \<Rightarrow> []
             | Inr creds \<Rightarrow> snd (process_message rt w key creds cal ev))
        | _ \<Rightarrow> [])"
  by (simp add: handler_body_unfold split: option.splits sum.splits prod.splits)

lemma handler_body_fst:
  "fst (handler_body rt w ev) =
     (case (fst (get_secret w S3_GEMINI_KEY_FILE), fst (get_secret w S3_GOOGLE_CREDS_FILE),
            fst (get_secret w S3_CALENDAR_ID_FILE)) of
        (Some key, Some cj, Some cal) \<Rightarrow>
          (case json_loads rt (JStr cj) of
             Inl e \<Rightarrow> Inl e
           | Inr creds \<Rightarrow> fst (process_message rt w key creds cal ev))
      | _ \<Rightarrow> Inr \<lparr>statusCode = 500, body = dumps rt (JStr ''Missing secrets.'')\<rparr>)"
  by (simp add: handler_body_unfold split: option.splits sum.splits prod.splits)

lemma handler_body_determined:
  assumes eq: "map reply_of (snd (handler_body rt w1 ev)) = map reply_of (snd (handler_body rt w2 ev))"
  shows "fst (handler_body rt w1 ev) = fst (handler_body rt w2 ev)"
proof -
  have len: "length (secret_calls w1) = length (secret_calls w2)"
    by (simp add: secret_calls_def)
  note parts = split_replies [OF len eq [unfolded handler_body_snd]]
  from parts have sc: "map reply_of (secret_calls w1) = map reply_of (secret_calls w2)"
    by (rule conjunct1)
  have same: "s3_get_object w1 S3_BUCKET_NAME S3_GEMINI_KEY_FILE =
                s3_get_object w2 S3_BUCKET_NAME S3_GEMINI_KEY_FILE"
      "s3_get_object w1 S3_BUCKET_NAME S3_GOOGLE_CREDS_FILE =
                s3_get_object w2 S3_BUCKET_NAME S3_GOOGLE_CREDS_FILE"
      "s3_get_object w1 S3_BUCKET_NAME S3_CALENDAR_ID_FILE =
                s3_get_object w2 S3_BUCKET_NAME S3_CALENDAR_ID_FILE"
    using sc by (simp_all add: secret_calls_replies)
  have g: "fst (get_secret w1 S3_GEMINI_KEY_FILE) = fst (get_secret w2 S3_GEMINI_KEY_FILE)"
    by (rule get_secret_reply) (rule same)
  have c: "fst (get_secret w1 S3_GOOGLE_CREDS_FILE) = fst (get_secret w2 S3_GOOGLE_CREDS_FILE)"
    by (rule get_secret_reply) (rule same)
  have i: "fst (get_secret w1 S3_CALENDAR_ID_FILE) = fst (get_secret w2 S3_CALENDAR_ID_FILE)"
    by (rule get_secret_reply) (rule same)
  from parts have rest:
    "map reply_of (case (fst (get_secret w2 S3_GEMINI_KEY_FILE), fst (get_secret w2 S3_GOOGLE_CREDS_FILE),
              fst (get_secret w2 S3_CALENDAR_ID_FILE)) of
          (Some key, Some cj, Some cal) \<Rightarrow>
            (case json_loads rt (JStr cj) of
               Inl e \<Rightarrow> []
             | Inr creds \<Rightarrow> snd (process_message rt w1 key creds cal ev))
        | _ \<Rightarrow> []) =
     map reply_of (case (fst (get_secret w2 S3_GEMINI_KEY_FILE), fst (get_secret w2 S3_GOOGLE_CREDS_FILE),
              fst (get_secret w2 S3_CALENDAR_ID_FILE)) of
          (Some key, Some cj, Some cal) \<Rightarrow>
            (case json_loads rt (JStr cj) of
               Inl e \<Rightarrow> []
             | Inr creds \<Rightarrow> snd (process_message rt w2 key creds cal ev))
        | _ \<Rightarrow> [])"
    unfolding g c i by (rule conjunct2)
  show ?thesis
  proof (cases "fst (get_secret w2 S3_GEMINI_KEY_FILE)")
    case None
    then show ?thesis unfolding handler_body_fst g c i by simp
  next
    case key: (Some key)
    show ?thesis
    proof (cases "fst (get_secret w2 S3_GOOGLE_CREDS_FILE)")
      case None
      then show ?thesis unfolding handler_body_fst g c i key by simp
    next
      case cj: (Some cj)
      show ?thesis
      proof (cases "fst (get_secret w2 S3_CALENDAR_ID_FILE)")
        case None
        then show ?thesis unfolding handler_body_fst g c i key cj by simp
      next
        case cal: (Some cal)
        show ?thesis
        proof (cases "loads rt cj")
          case (Inl msg)
          then show ?thesis unfolding handler_body_fst g c i key cj cal by simp
        next
          case (Inr creds)
          have "map reply_of (snd (process_message rt w1 key creds cal ev)) =
                map reply_of (snd (process_message rt w2 key creds cal ev))"
            using rest unfolding key cj cal by (simp add: Inr)
          then have "fst (process_message rt w1 key creds cal ev) =
                     fst (process_message rt w2 key creds cal ev)"
            by (rule process_message_determined)
          then show ?thesis unfolding handler_body_fst g c i key cj cal by (simp add: Inr)
        qed
      qed
    qed
  qed
qed

lemma lambda_handler_fst:
  "fst (lambda_handler rt w event) =
      (case fst (handler_body rt w event) of
         Inr r \<Rightarrow> r
       | Inl e \<Rightarrow>
          if is_request_exception e
          then \<lparr>statusCode = 500, body = dumps rt (JStr (''API Call Error: '' @ str_exn rt e))\<rparr>
          else \<lparr>statusCode = 500, body = dumps rt (JStr (''Unexpected Error: '' @ str_exn rt e))\<rparr>)"
  by (simp add: lambda_handler_def split: prod.splits sum.splits)

text \<open>
  C9. The response is a function of the inbound event and of the answers the external
  calls gave. Two invocations on the same event, in two worlds that may differ in their
  clock and in how their services answer any other request, which received the same
  answers in the same order, return the same response. The handler takes the event and
  the world and returns the response and the calls: no state is carried from one
  invocation to the next.
\<close>

theorem same_replies_same_response:
  assumes "map reply_of (snd (lambda_handler rt w1 event)) =
           map reply_of (snd (lambda_handler rt w2 event))"
  shows "fst (lambda_handler rt w1 event) = fst (lambda_handler rt w2 event)"
proof -
  have "map reply_of (snd (handler_body rt w1 event)) =
        map reply_of (snd (handler_body rt w2 event))"
    using assms by (simp only: handler_trace)
  then have "fst (handler_body rt w1 event) = fst (handler_body rt w2 event)"
    by (rule handler_body_determined)
  then show ?thesis by (simp only: lambda_handler_fst)
qed

theorem same_replies_same_response_witness:
  \<open>map reply_of (snd (lambda_handler sample_runtime
        (sample_world\<lparr>gemini_post := \<lambda>q. Inr (gemini_answer ''{}'')\<rparr>) sample_event)) =
     map reply_of (snd (lambda_handler sample_runtime
        (sample_world\<lparr>gemini_post := \<lambda>q. Inr (gemini_answer ''{}''), today := ''2025-12-01''\<rparr>)
        sample_event))
   \<and> today (sample_world\<lparr>gemini_post := \<lambda>q. Inr (gemini_answer ''{}'')\<rparr>) = ''2025-11-04''
   \<and> today (sample_world\<lparr>gemini_post := \<lambda>q. Inr (gemini_answer ''{}''), today := ''2025-12-01''\<rparr>)
       = ''2025-12-01''
   \<and> fst (lambda_handler sample_runtime
        (sample_world\<lparr>gemini_post := \<lambda>q. Inr (gemini_answer ''{}'')\<rparr>) sample_event) =
     fst (lambda_handler sample_runtime
        (sample_world\<lparr>gemini_post := \<lambda>q. Inr (gemini_answer ''{}''), today := ''2025-12-01''\<rparr>)
        sample_event)
   \<and> fst (lambda_handler sample_runtime
        (sample_world\<lparr>gemini_post := \<lambda>q. Inr (gemini_answer ''{}''), today := ''2025-12-01''\<rparr>)
        sample_event) = \<lparr>statusCode = 200, body = ''{"status": "No event found."}''\<rparr>\<close>
  using same_replies_same_response [where rt = sample_runtime
      and ?w1.0 = "sample_world\<lparr>gemini_post := \<lambda>q. Inr (gemini_answer ''{}'')\<rparr>"
      and ?w2.0 = "sample_world\<lparr>gemini_post := \<lambda>q. Inr (gemini_answer ''{}''), today := ''2025-12-01''\<rparr>"
      and event = sample_event]
  by (simp add: handler_defs sample_defs strip_defs Let_def)

section \<open>The AI extractor\<close>

text \<open>
  The failures \<open>extract_event_data\<close> absorbs: the request raises (a timeout or any
  transport error), \<^verbatim>\<open>raise_for_status\<close> raises for the status of the response, or the model
  text is not valid JSON once the fences are stripped. In each case the extractor returns
  \<^verbatim>\<open>{"event_found": False}\<close>, and an invocation that made this call answers 200 with
  \<^verbatim>\<open>{"status": "No event found."}\<close> after the three S3 reads and the AI call.
\<close>

lemma absorbed_ai_failures:
  assumes "(\<exists>e. r = Inl e)
         \<or> (\<exists>resp e. r = Inr resp \<and> raise_for_status resp = Some e)
         \<or> (\<exists>resp out raw msg. r = Inr resp \<and> raise_for_status resp = None
               \<and> body_json resp = Inr out \<and> gemini_text out = Some (JStr raw)
               \<and> loads rt (strip_fences raw) = Inl msg)"
  shows "(r = gemini_post w \<lparr>api_key = key, prompt = build_prompt rt (today w) raw_text\<rparr>
            \<longrightarrow> fst (extract_event_data rt w key raw_text) = Inr event_not_found)
       \<and> (GeminiPost req r \<in> set (snd (lambda_handler rt w event))
            \<longrightarrow> lambda_handler rt w event =
                 (\<lparr>statusCode = 200, body = dumps rt (JObj [(''status'', JStr ''No event found.'')])\<rparr>,
                  secret_calls w @ [GeminiPost req r]))"
proof -
  have extractor: "fst (extract_event_data rt w k raw') = Inr event_not_found"
    if "r = gemini_post w \<lparr>api_key = k, prompt = build_prompt rt (today w) raw'\<rparr>" for k raw'
    using assms that [symmetric]
    by (auto simp: extract_event_data_def parse_gemini_response_def Let_def)
  have handler: "lambda_handler rt w event =
                 (\<lparr>statusCode = 200, body = dumps rt (JObj [(''status'', JStr ''No event found.'')])\<rparr>,
                  secret_calls w @ [GeminiPost req r])"
    if called: "GeminiPost req r \<in> set (snd (lambda_handler rt w event))"
  proof -
    from handler_gemini [OF called] obtain k creds cal raw' gn where
      req: "req = \<lparr>api_key = k, prompt = build_prompt rt (today w) raw'\<rparr>"
      and r: "r = gemini_post w req"
      and hb: "handler_body rt w event =
               (case fst (extract_event_data rt w k raw') of
                  Inl e \<Rightarrow> (Inl e, secret_calls w @ [GeminiPost req r])
                | Inr x \<Rightarrow>
                    (case after_extraction rt w creds cal gn x of
                       (res, t) \<Rightarrow> (res, secret_calls w @ GeminiPost req r # t)))"
      by blast
    have "fst (extract_event_data rt w k raw') = Inr event_not_found"
      using extractor r req by simp
    then show ?thesis
      using hb by (simp add: after_extraction_not_found handler_of_body)
  qed
  show ?thesis using extractor handler by blast
qed

lemma ai_timeout_example:
  \<open>lambda_handler sample_runtime
        (sample_world\<lparr>gemini_post := \<lambda>q. Inl (Timeout ''Read timed out.'')\<rparr>) sample_event =
       (\<lparr>statusCode = 200, body = ''{"status": "No event found."}''\<rparr>,
        [S3Get ''gemini_api_key.txt'' (Inr (''key-1'' @ nl)),
         S3Get ''google_creds.json'' (Inr sample_creds_text),
         S3Get ''calendar_id.txt'' (Inr ''primary''),
         GeminiPost \<lparr>api_key = ''key-1'',
             prompt = build_prompt sample_runtime ''2025-11-04'' (JStr ''Pickup game Friday at 6'')\<rparr>
           (Inl (Timeout ''Read timed out.''))])\<close>
  by (simp add: handler_defs sample_defs strip_defs Let_def)

text \<open>
  The failure it does not absorb. When the status passes and \<^verbatim>\<open>response.json()\<close> raises a
  \<^verbatim>\<open>json.JSONDecodeError\<close> (a body that is not JSON, or an empty one), the clause meant to
  catch it logs \<^verbatim>\<open>json_text_raw\<close> before that variable has a value. The
  \<^verbatim>\<open>UnboundLocalError\<close> leaves the extractor and the handler answers 500.
\<close>

lemma undecodable_body_raises:
  assumes called: "GeminiPost req (Inr resp) \<in> set (snd (lambda_handler rt w event))"
    and resp: "raise_for_status resp = None" "body_json resp = Inl e" "is_json_decode_error e"
  shows "lambda_handler rt w event =
           (\<lparr>statusCode = 500,
              body = dumps rt (JStr (''Unexpected Error: ''
                                     @ describe rt (UnboundLocalError ''json_text_raw'')))\<rparr>,
            secret_calls w @ [GeminiPost req (Inr resp)])"
proof -
  from handler_gemini [OF called] obtain k creds cal raw' gn where
    k: "k \<noteq> []" and req: "req = \<lparr>api_key = k, prompt = build_prompt rt (today w) raw'\<rparr>"
    and r: "Inr resp = gemini_post w req"
    and hb: "handler_body rt w event =
             (case fst (extract_event_data rt w k raw') of
                Inl e \<Rightarrow> (Inl e, secret_calls w @ [GeminiPost req (Inr resp)])
              | Inr x \<Rightarrow>
                  (case after_extraction rt w creds cal gn x of
                     (res, t) \<Rightarrow> (res, secret_calls w @ GeminiPost req (Inr resp) # t)))"
    by blast
  have "fst (extract_event_data rt w k raw') = Inl (UnboundLocalError ''json_text_raw'')"
    using r [symmetric] req resp k
    by (simp add: extract_event_data_def parse_gemini_response_def Let_def)
  then show ?thesis using hb by (simp add: lambda_handler_def)
qed

text \<open>
  C4 fails on the code. Gemini answers with a passing status and a body that is not JSON,
  so \<^verbatim>\<open>response.json()\<close> raises \<^verbatim>\<open>JSONDecodeError\<close>. The extractor raises
  \<^verbatim>\<open>UnboundLocalError\<close> instead of returning \<^verbatim>\<open>{"event_found": False}\<close>, and the handler
  answers 500 with the text of that error, not 200 \<^verbatim>\<open>No event found.\<close>
\<close>

theorem undecodable_ai_body_is_500:
  \<open>fst (extract_event_data sample_runtime
          (sample_world\<lparr>gemini_post := \<lambda>q. Inr \<lparr>raise_for_status = None,
             body_json = Inl (RequestsJSONDecodeError ''Expecting value: line 1 column 1 (char 0)'')\<rparr>\<rparr>)
          ''key-1'' (JStr ''Pickup game Friday at 6'')) = Inl (UnboundLocalError ''json_text_raw'')
   \<and> lambda_handler sample_runtime
        (sample_world\<lparr>gemini_post := \<lambda>q. Inr \<lparr>raise_for_status = None,
           body_json = Inl (RequestsJSONDecodeError ''Expecting value: line 1 column 1 (char 0)'')\<rparr>\<rparr>)
        sample_event =
       (\<lparr>statusCode = 500,
          body = ''"Unexpected Error: cannot access local variable '' @ [CHR 0x27]
                 @ ''json_text_raw'' @ [CHR 0x27] @ '' where it is not associated with a value"''\<rparr>,
        [S3Get ''gemini_api_key.txt'' (Inr (''key-1'' @ nl)),
         S3Get ''google_creds.json'' (Inr sample_creds_text),
         S3Get ''calendar_id.txt'' (Inr ''primary''),
         GeminiPost \<lparr>api_key = ''key-1'',
             prompt = build_prompt sample_runtime ''2025-11-04'' (JStr ''Pickup game Friday at 6'')\<rparr>
           (Inr \<lparr>raise_for_status = None,
             body_json = Inl (RequestsJSONDecodeError ''Expecting value: line 1 column 1 (char 0)'')\<rparr>)])\<close>
  by (simp add: handler_defs sample_defs strip_defs Let_def)

subsection \<open>Fence stripping\<close>

lemma is_prefix_append: "is_prefix p s \<Longrightarrow> s = p @ drop (length p) s"
  by (induction p s rule: is_prefix.induct) simp_all

lemma remove_prefix_cases: "s = remove_prefix p s \<or> s = p @ remove_prefix p s"
  using is_prefix_append [of p s] by (simp add: remove_prefix_def)

lemma remove_suffix_cases: "s = remove_suffix p s \<or> s = remove_suffix p s @ p"
proof -
  from remove_prefix_cases [of "rev s" "rev p"]
  have "rev s = rev (remove_suffix p s) \<or> rev s = rev p @ rev (remove_suffix p s)"
    by (simp add: remove_suffix_def)
  then show ?thesis
    by (metis rev_append rev_rev_ident)
qed

text \<open>The trimmed text is the text inside the fences with a marker, or nothing, on each side.\<close>

lemma unfenced_by_spec_shape:
  "\<exists>pre suf. strip raw = pre @ unfenced_by_spec raw @ suf
     \<and> (pre = [] \<or> pre = ''```'' \<or> pre = ''```json'') \<and> (suf = [] \<or> suf = ''```'')"
proof -
  define inner where "inner =
     (if is_prefix ''```json'' (strip raw) then remove_prefix ''```json'' (strip raw)
      else remove_prefix ''```'' (strip raw))"
  have unf: "unfenced_by_spec raw = remove_suffix ''```'' inner"
    by (simp add: unfenced_by_spec_def inner_def)
  have pre: "\<exists>pre. strip raw = pre @ inner \<and> (pre = [] \<or> pre = ''```'' \<or> pre = ''```json'')"
  proof (cases "is_prefix ''```json'' (strip raw)")
    case True
    then have "inner = remove_prefix ''```json'' (strip raw)" by (simp add: inner_def)
    then show ?thesis
      using remove_prefix_cases [of "strip raw" "''```json''"] by (metis append_Nil)
  next
    case False
    then have "inner = remove_prefix ''```'' (strip raw)" by (simp add: inner_def)
    then show ?thesis
      using remove_prefix_cases [of "strip raw" "''```''"] by (metis append_Nil)
  qed
  have suf: "\<exists>suf. inner = unfenced_by_spec raw @ suf \<and> (suf = [] \<or> suf = ''```'')"
    using remove_suffix_cases [of inner "''```''"] unf by (metis append_Nil2)
  from pre suf show ?thesis by (metis append_assoc)
qed

lemma lstrip_fence:
  assumes "\<forall>c \<in> set pre. p c" and "mid \<noteq> []" and "\<not> p (hd mid)"
  shows "lstrip_chars p (pre @ mid @ suf) = mid @ suf"
proof -
  obtain b bs where b: "mid = b # bs" using assms(2) by (cases mid) auto
  have "dropWhile p (pre @ mid @ suf) = dropWhile p (mid @ suf)"
    using assms(1) by (simp add: dropWhile_append2)
  also have "\<dots> = mid @ suf" using assms(3) by (simp add: b)
  finally show ?thesis by (simp add: lstrip_chars_def)
qed

lemma rstrip_fence:
  assumes "\<forall>c \<in> set suf. q c" and "mid \<noteq> []" and "\<not> q (last mid)"
  shows "rstrip_chars q (mid @ suf) = mid"
proof -
  have "lstrip_chars q (rev suf @ rev mid @ []) = rev mid @ []"
    using assms by (intro lstrip_fence) (simp_all add: hd_rev)
  then show ?thesis by (simp add: rstrip_chars_def lstrip_chars_def)
qed

text \<open>
  Where stripping by character set and stripping by marker agree: whenever the text inside
  the fences neither starts with one of the characters of \<^verbatim>\<open>```json\<close> nor ends with a
  backquote. A JSON object, which starts with a brace or white space and ends with one,
  is such a text; the bare text \<^verbatim>\<open>null\<close> is not.
\<close>

lemma strip_fences_by_spec:
  assumes "unfenced_by_spec raw \<noteq> []"
    and "hd (unfenced_by_spec raw) \<notin> set ''```json''"
    and "last (unfenced_by_spec raw) \<noteq> CHR 0x60"
  shows "strip_fences raw = unfenced_by_spec raw"
proof -
  from unfenced_by_spec_shape [of raw] obtain pre suf where
    s: "strip raw = pre @ unfenced_by_spec raw @ suf"
    and pre: "pre = [] \<or> pre = ''```'' \<or> pre = ''```json''"
    and suf: "suf = [] \<or> suf = ''```''"
    by blast
  have p: "\<forall>c \<in> set pre. c \<in> set ''```json''" using pre by auto
  have q: "\<forall>c \<in> set suf. c \<in> set ''```''" using suf by auto
  have "lstrip_chars (\<lambda>c. c \<in> set ''```json'') (strip raw) = unfenced_by_spec raw @ suf"
    unfolding s using p assms(1,2) by (rule lstrip_fence)
  moreover have "rstrip_chars (\<lambda>c. c \<in> set ''```'') (unfenced_by_spec raw @ suf) =
      unfenced_by_spec raw"
    using q assms(1) by (rule rstrip_fence) (use assms(3) in simp)
  ultimately show ?thesis by (simp add: strip_fences_def)
qed

lemma object_text_not_fence:
  assumes "c = CHR ''{'' \<or> py_isspace c"
  shows "c \<notin> set ''```json''"
  using assms by (auto simp: py_isspace_def)

lemma object_text_not_backquote:
  assumes "c = CHR ''}'' \<or> py_isspace c"
  shows "c \<noteq> CHR 0x60"
  using assms by (auto simp: py_isspace_def)

lemma gemini_text_envelope:
  assumes "map_of okv ''candidates'' = Some (JArr (JObj ckv # more_candidates))"
    and "map_of ckv ''content'' = Some (JObj nkv)"
    and "map_of nkv ''parts'' = Some (JArr (JObj pkv # more_parts))"
    and "map_of pkv ''text'' = Some v"
  shows "gemini_text (JObj okv) = Some v"
  using assms by (simp add: gemini_text_def ok_def)

text \<open>
  C5, as the code has it. Take a response in the shape of the AI service whose model text,
  once trimmed and with its fence markers taken off, starts with a brace or white space
  and ends with a brace or white space, as the text of a JSON object does. Then the text
  the extractor parses is exactly that text; if it parses to an object, the extractor
  returns that object, fields and values unchanged; and if it does not parse, or the
  object has no \<^verbatim>\<open>event_found\<close>, the handler answers 200 with
  \<^verbatim>\<open>{"status": "No event found."}\<close> and makes no further call.
\<close>

theorem fenced_object_is_extracted:
  assumes envelope: "raise_for_status resp = None" "body_json resp = Inr (JObj okv)"
      "map_of okv ''candidates'' = Some (JArr (JObj ckv # more_candidates))"
      "map_of ckv ''content'' = Some (JObj nkv)"
      "map_of nkv ''parts'' = Some (JArr (JObj pkv # more_parts))"
      "map_of pkv ''text'' = Some (JStr raw)"
    and object_text: "unfenced_by_spec raw \<noteq> []"
      "hd (unfenced_by_spec raw) = CHR ''{'' \<or> py_isspace (hd (unfenced_by_spec raw))"
      "last (unfenced_by_spec raw) = CHR ''}'' \<or> py_isspace (last (unfenced_by_spec raw))"
  shows "strip_fences raw = unfenced_by_spec raw
       \<and> (key \<noteq> []
            \<and> gemini_post w \<lparr>api_key = key, prompt = build_prompt rt (today w) raw_text\<rparr> = Inr resp
            \<and> loads rt (unfenced_by_spec raw) = Inr (JObj kv)
            \<longrightarrow> fst (extract_event_data rt w key raw_text) = Inr (JObj kv))
       \<and> (GeminiPost req (Inr resp) \<in> set (snd (lambda_handler rt w event))
            \<and> (loads rt (unfenced_by_spec raw) = Inl msg
                \<or> loads rt (unfenced_by_spec raw) = Inr (JObj kv) \<and> map_of kv ''event_found'' = None)
            \<longrightarrow> lambda_handler rt w event =
                 (\<lparr>statusCode = 200, body = dumps rt (JObj [(''status'', JStr ''No event found.'')])\<rparr>,
                  secret_calls w @ [GeminiPost req (Inr resp)]))"
proof -
  have same: "strip_fences raw = unfenced_by_spec raw"
    using object_text(1) object_text_not_fence [OF object_text(2)]
      object_text_not_backquote [OF object_text(3)]
    by (rule strip_fences_by_spec)
  have model_text: "gemini_text (JObj okv) = Some (JStr raw)"
    using envelope(3-6) by (rule gemini_text_envelope)
  have parsed: "parse_gemini_response rt resp =
      (case loads rt (unfenced_by_spec raw) of Inl m \<Rightarrow> Inr event_not_found | Inr x \<Rightarrow> Inr x)"
    using envelope(2) model_text same by (simp add: parse_gemini_response_def)
  have extractor: "fst (extract_event_data rt w k raw') = parse_gemini_response rt resp"
    if "k \<noteq> []" "gemini_post w \<lparr>api_key = k, prompt = build_prompt rt (today w) raw'\<rparr> = Inr resp"
    for k raw'
    using that envelope(1) by (simp add: extract_event_data_def Let_def)
  have handler: "lambda_handler rt w event =
                 (\<lparr>statusCode = 200, body = dumps rt (JObj [(''status'', JStr ''No event found.'')])\<rparr>,
                  secret_calls w @ [GeminiPost req (Inr resp)])"
    if called: "GeminiPost req (Inr resp) \<in> set (snd (lambda_handler rt w event))"
      and absent: "loads rt (unfenced_by_spec raw) = Inl msg
                \<or> loads rt (unfenced_by_spec raw) = Inr (JObj kv) \<and> map_of kv ''event_found'' = None"
  proof -
    from handler_gemini [OF called] obtain k creds cal raw' gn where
      k: "k \<noteq> []" and req: "req = \<lparr>api_key = k, prompt = build_prompt rt (today w) raw'\<rparr>"
      and r: "Inr resp = gemini_post w req"
      and hb: "handler_body rt w event =
               (case fst (extract_event_data rt w k raw') of
                  Inl e \<Rightarrow> (Inl e, secret_calls w @ [GeminiPost req (Inr resp)])
                | Inr x \<Rightarrow>
                    (case after_extraction rt w creds cal gn x of
                       (res, t) \<Rightarrow> (res, secret_calls w @ GeminiPost req (Inr resp) # t)))"
      by blast
    have ex: "fst (extract_event_data rt w k raw') = parse_gemini_response rt resp"
      using extractor [OF k] r req by simp
    from absent show ?thesis
    proof
      assume "loads rt (unfenced_by_spec raw) = Inl msg"
      then show ?thesis
        using hb ex parsed by (simp add: after_extraction_not_found handler_of_body)
    next
      assume "loads rt (unfenced_by_spec raw) = Inr (JObj kv) \<and> map_of kv ''event_found'' = None"
      then show ?thesis
        using hb ex parsed by (simp add: after_extraction_absent handler_of_body)
    qed
  qed
  have returned: "fst (extract_event_data rt w key raw_text) = Inr (JObj kv)"
    if "key \<noteq> []"
      "gemini_post w \<lparr>api_key = key, prompt = build_prompt rt (today w) raw_text\<rparr> = Inr resp"
      "loads rt (unfenced_by_spec raw) = Inr (JObj kv)"
    using extractor [OF that(1,2)] parsed that(3) by simp
  show ?thesis using same returned handler by blast
qed

theorem fenced_object_is_extracted_witness:
  \<open>unfenced_by_spec sample_model_text = sample_extracted_text
   \<and> strip_fences sample_model_text = sample_extracted_text
   \<and> hd sample_extracted_text = CHR 0x0A \<and> last sample_extracted_text = CHR 0x0A
   \<and> loads sample_runtime sample_extracted_text = Inr (JObj [(''event_found'', JBool True), (''title'', JStr ''Pickup game''),
          (''date'', JStr ''2025-11-07''), (''time'', JStr ''18:00''), (''location'', JStr ''Field 2''),
          (''description'', JStr ''Weekly game'')])
   \<and> fst (extract_event_data sample_runtime sample_world ''key-1''
          (JStr ''Pickup game Friday at 6'')) = Inr (JObj [(''event_found'', JBool True), (''title'', JStr ''Pickup game''),
          (''date'', JStr ''2025-11-07''), (''time'', JStr ''18:00''), (''location'', JStr ''Field 2''),
          (''description'', JStr ''Weekly game'')])
   \<and> unfenced_by_spec unflagged_model_text = unflagged_text
   \<and> loads sample_runtime unflagged_text = Inr (JObj [(''title'', JStr ''Lunch'')])
   \<and> lambda_handler sample_runtime
        (sample_world\<lparr>gemini_post := \<lambda>q. Inr (gemini_answer unflagged_model_text)\<rparr>) sample_event =
       (\<lparr>statusCode = 200, body = ''{"status": "No event found."}''\<rparr>,
        [S3Get ''gemini_api_key.txt'' (Inr (''key-1'' @ nl)),
         S3Get ''google_creds.json'' (Inr sample_creds_text),
         S3Get ''calendar_id.txt'' (Inr ''primary''),
         GeminiPost \<lparr>api_key = ''key-1'',
             prompt = build_prompt sample_runtime ''2025-11-04'' (JStr ''Pickup game Friday at 6'')\<rparr>
           (Inr (gemini_answer unflagged_model_text))])
   \<and> unfenced_by_spec ''{oops}'' = ''{oops}''
   \<and> lambda_handler sample_runtime
        (sample_world\<lparr>gemini_post := \<lambda>q. Inr (gemini_answer ''{oops}'')\<rparr>) sample_event =
       (\<lparr>statusCode = 200, body = ''{"status": "No event found."}''\<rparr>,
        [S3Get ''gemini_api_key.txt'' (Inr (''key-1'' @ nl)),
         S3Get ''google_creds.json'' (Inr sample_creds_text),
         S3Get ''calendar_id.txt'' (Inr ''primary''),
         GeminiPost \<lparr>api_key = ''key-1'',
             prompt = build_prompt sample_runtime ''2025-11-04'' (JStr ''Pickup game Friday at 6'')\<rparr>
           (Inr (gemini_answer ''{oops}''))])\<close>
  using fenced_object_is_extracted [where resp = "gemini_answer sample_model_text"
      and okv = "[(''candidates'',
          JArr [JObj [(''content'', JObj [(''parts'', JArr [JObj [(''text'', JStr sample_model_text)]])])]])]"
      and ckv = "[(''content'', JObj [(''parts'', JArr [JObj [(''text'', JStr sample_model_text)]])])]"
      and more_candidates = "[]"
      and nkv = "[(''parts'', JArr [JObj [(''text'', JStr sample_model_text)]])]"
      and pkv = "[(''text'', JStr sample_model_text)]" and more_parts = "[]" and raw = sample_model_text
      and rt = sample_runtime and w = "sample_world"
      and key = "''key-1''" and raw_text = "JStr ''Pickup game Friday at 6''"
      and req = "\<lparr>api_key = ''key-1'',
        prompt = build_prompt sample_runtime ''2025-11-04'' (JStr ''Pickup game Friday at 6'')\<rparr>"
      and event = sample_event
      and kv = "[(''event_found'', JBool True), (''title'', JStr ''Pickup game''),
          (''date'', JStr ''2025-11-07''), (''time'', JStr ''18:00''), (''location'', JStr ''Field 2''),
          (''description'', JStr ''Weekly game'')]"]
    fenced_object_is_extracted [where resp = "gemini_answer unflagged_model_text"
      and okv = "[(''candidates'',
          JArr [JObj [(''content'', JObj [(''parts'', JArr [JObj [(''text'', JStr unflagged_model_text)]])])]])]"
      and ckv = "[(''content'', JObj [(''parts'', JArr [JObj [(''text'', JStr unflagged_model_text)]])])]"
      and more_candidates = "[]"
      and nkv = "[(''parts'', JArr [JObj [(''text'', JStr unflagged_model_text)]])]"
      and pkv = "[(''text'', JStr unflagged_model_text)]" and more_parts = "[]" and raw = unflagged_model_text
      and rt = sample_runtime and w = "sample_world\<lparr>gemini_post := \<lambda>q. Inr (gemini_answer unflagged_model_text)\<rparr>"
      and key = "''key-1''" and raw_text = "JStr ''Pickup game Friday at 6''"
      and req = "\<lparr>api_key = ''key-1'',
        prompt = build_prompt sample_runtime ''2025-11-04'' (JStr ''Pickup game Friday at 6'')\<rparr>"
      and event = sample_event
      and kv = "[(''title'', JStr ''Lunch'')]"]
    fenced_object_is_extracted [where resp = "gemini_answer ''{oops}''"
      and okv = "[(''candidates'',
          JArr [JObj [(''content'', JObj [(''parts'', JArr [JObj [(''text'', JStr ''{oops}'')]])])]])]"
      and ckv = "[(''content'', JObj [(''parts'', JArr [JObj [(''text'', JStr ''{oops}'')]])])]"
      and more_candidates = "[]"
      and nkv = "[(''parts'', JArr [JObj [(''text'', JStr ''{oops}'')]])]"
      and pkv = "[(''text'', JStr ''{oops}'')]" and more_parts = "[]" and raw = "''{oops}''"
      and rt = sample_runtime and w = "sample_world\<lparr>gemini_post := \<lambda>q. Inr (gemini_answer ''{oops}'')\<rparr>"
      and key = "''key-1''" and raw_text = "JStr ''Pickup game Friday at 6''"
      and req = "\<lparr>api_key = ''key-1'',
        prompt = build_prompt sample_runtime ''2025-11-04'' (JStr ''Pickup game Friday at 6'')\<rparr>"
      and event = sample_event
      and msg = "''Expecting property name enclosed in double quotes: line 1 column 2 (char 1)''"]
  by (simp add: handler_defs sample_defs strip_defs Let_def)

text \<open>
  The claim as first stated fails outside such texts. The model text \<^verbatim>\<open>[]\<close> is valid JSON
  without an \<^verbatim>\<open>event_found\<close> field: the extractor returns the list and the handler fails
  on the item assignment and answers 500. The model text \<^verbatim>\<open>null\<close> is valid JSON, but
  stripping by character set eats its first letter and the extractor returns
  \<^verbatim>\<open>{"event_found": False}\<close>, which is not the parsed value.
\<close>

theorem non_object_json_counterexample:
  \<open>unfenced_by_spec ''[]'' = ''[]'' \<and> loads sample_runtime ''[]'' = Inr (JArr [])
   \<and> fst (extract_event_data sample_runtime
          (sample_world\<lparr>gemini_post := \<lambda>q. Inr (gemini_answer ''[]'')\<rparr>) ''key-1''
          (JStr ''Pickup game Friday at 6'')) = Inr (JArr [])
   \<and> fst (lambda_handler sample_runtime
          (sample_world\<lparr>gemini_post := \<lambda>q. Inr (gemini_answer ''[]'')\<rparr>) sample_event) =
       \<lparr>statusCode = 500,
        body = ''"Unexpected Error: list indices must be integers or slices, not str"''\<rparr>
   \<and> unfenced_by_spec ''null'' = ''null'' \<and> loads sample_runtime ''null'' = Inr JNull
   \<and> strip_fences ''null'' = ''ull''
   \<and> fst (extract_event_data sample_runtime
          (sample_world\<lparr>gemini_post := \<lambda>q. Inr (gemini_answer ''null'')\<rparr>) ''key-1''
          (JStr ''Pickup game Friday at 6'')) = Inr (JObj [(''event_found'', JBool False)])\<close>
  by (simp add: handler_defs sample_defs strip_defs Let_def)

end
